theory Spec2Isabelle
  imports Main "HOL-Library.Word"
begin

unbundle bit_operations_syntax

section \<open>Go values shared by both snapshots of the bot\<close>

text \<open>
  The sources hold two snapshots of the program: the current one (\<^verbatim>\<open>mailbot.go\<close> lines
  1-331 together with \<^verbatim>\<open>config.go\<close>), built on go-github, and an earlier single-file one
  (\<^verbatim>\<open>mailbot.go\<close> lines 333-699), which checks the signature, syncs the mirror and reads a
  JSON configuration itself. Both are embedded. Names of the current snapshot are the
  source's; a method \<^verbatim>\<open>T.f\<close> is written \<open>T_f\<close>.

  A Go \<^verbatim>\<open>error\<close> is a value of the datatype below; \<^verbatim>\<open>nil\<close> is \<open>None\<close> of
  \<open>error option\<close>. The code tells errors apart by type in two places only
  (\<^verbatim>\<open>MissingConfigError\<close>, \<^verbatim>\<open>*exec.ExitError\<close>); every other error is its message.
\<close>

datatype error =
    MissingConfigError
  | ExitError string string
  | ErrorString string

text \<open>\<^verbatim>\<open>err.Error()\<close>; an \<^verbatim>\<open>ExitError state stderr\<close> prints its process state.\<close>

fun Error :: "error \<Rightarrow> string" where
  "Error MissingConfigError = ''no commit-emails.toml found''"
| "Error (ExitError state stderr) = state"
| "Error (ErrorString msg) = msg"

text \<open>A function that can panic either panics or returns.\<close>

datatype 'a outcome = Panic | Return 'a

datatype level = LevelInfo | LevelWarn | LevelError

text \<open>A record of \<^verbatim>\<open>log/slog\<close> (level, message, attributes) or a line of \<^verbatim>\<open>log.Printf\<close>.\<close>

datatype log_record =
    Slog level string "(string \<times> string) list"
  | Printf string

fun strings_Join :: "string list \<Rightarrow> string \<Rightarrow> string" where
  "strings_Join [] sep = []"
| "strings_Join [x] sep = x"
| "strings_Join (x # y # ys) sep = x @ sep @ strings_Join (y # ys) sep"

text \<open>
  A subprocess as \<^verbatim>\<open>os/exec\<close> describes it. \<^verbatim>\<open>exec.Command(name, arg...)\<close> sets
  \<open>Args\<close> to \<open>name # arg\<close>.
\<close>

record Cmd =
  Path :: string
  Args :: "string list"
  Env :: "string list"
  Stdin :: string

definition exec_Command :: "string \<Rightarrow> string list \<Rightarrow> Cmd" where
  "exec_Command name arg = \<lparr>Path = name, Args = name # arg, Env = [], Stdin = ''''\<rparr>"

text \<open>
  The state a handler runs in: the world outside the process (file system, network,
  statistics database; of an abstract type \<open>'w\<close>), the subprocesses the code has run so
  far, in order, the log, and what was printed on standard output.
\<close>

record 'w state =
  world :: 'w
  spawned :: "Cmd list"
  logged :: "log_record list"
  printed :: "string list"

text \<open>\<^verbatim>\<open>http.ResponseWriter\<close>: the status, once written, and the body written so far.\<close>

record ResponseWriter =
  wstatus :: "nat option"
  wbody :: string

definition NewResponse :: ResponseWriter where
  "NewResponse = \<lparr>wstatus = None, wbody = ''''\<rparr>"

text \<open>\<^verbatim>\<open>w.Write\<close> sends status 200 first when no status was written.\<close>

definition Write :: "ResponseWriter \<Rightarrow> string \<Rightarrow> ResponseWriter" where
  "Write w b =
     w\<lparr>wstatus := (case wstatus w of None \<Rightarrow> Some 200 | Some c \<Rightarrow> Some c),
       wbody := wbody w @ b\<rparr>"

text \<open>\<^verbatim>\<open>http.Error\<close>: \<^verbatim>\<open>WriteHeader(code)\<close>, then the message and a newline.\<close>

definition http_Error :: "ResponseWriter \<Rightarrow> string \<Rightarrow> nat \<Rightarrow> ResponseWriter" where
  "http_Error w msg code =
     w\<lparr>wstatus := (case wstatus w of None \<Rightarrow> Some code | Some c \<Rightarrow> Some c),
       wbody := wbody w @ msg @ [CHR 0x0A]\<rparr>"

definition StatusBadRequest :: nat where
  "StatusBadRequest = 400"

text \<open>The status the client sees: 200 when the handler wrote none.\<close>

definition status_of :: "ResponseWriter \<Rightarrow> nat" where
  "status_of w = (case wstatus w of None \<Rightarrow> 200 | Some c \<Rightarrow> c)"

record Request =
  Method :: string
  Header :: "string \<rightharpoonup> string"
  Body :: string

text \<open>\<^verbatim>\<open>req.Header.Get\<close>: the empty string for a header that is not there.\<close>

definition Header_Get :: "Request \<Rightarrow> string \<Rightarrow> string" where
  "Header_Get req key = (case Header req key of None \<Rightarrow> '''' | Some v \<Rightarrow> v)"

section \<open>Events of the current snapshot (go-github)\<close>

text \<open>
  go-github's event structs hold pointers; a \<^verbatim>\<open>nil\<close> pointer is \<open>None\<close>, and
  dereferencing it panics. Only the fields the bot reads are kept.
\<close>

record Installation =
  ID :: "int option"

record CommitAuthor =
  Name :: "string option"

record HeadCommit =
  Committer :: "CommitAuthor option"

record PushEventRepository =
  FullName :: "string option"
  HTMLURL :: "string option"

record PushEvent =
  Ref :: "string option"
  Before :: "string option"
  After :: "string option"
  Repo :: "PushEventRepository option"
  HeadCommit :: "HeadCommit option"
  Installation :: "Installation option"

text \<open>
  Of an installation event the bot reads \<^verbatim>\<open>GetAction()\<close> and
  \<^verbatim>\<open>GetInstallation().GetAccount().GetLogin()\<close>; the record keeps these two.
\<close>

record InstallationEvent =
  Action :: "string option"
  AccountLogin :: "string option"

datatype Event =
    PingEvent
  | PushEvent PushEvent
  | InstallationEvent InstallationEvent
  | InstallationRepositoriesEvent InstallationEvent
  | OtherEvent

text \<open>go-github's getters return the zero value through a \<^verbatim>\<open>nil\<close> pointer.\<close>

definition GetString :: "string option \<Rightarrow> string" where
  "GetString p = (case p of None \<Rightarrow> '''' | Some v \<Rightarrow> v)"

definition GetRepo_GetFullName :: "PushEvent \<Rightarrow> string" where
  "GetRepo_GetFullName ev = GetString (Option.bind (Repo ev) FullName)"

definition GetInstallation_GetID :: "PushEvent \<Rightarrow> int" where
  "GetInstallation_GetID ev =
     (case Option.bind (Installation ev) ID of None \<Rightarrow> 0 | Some i \<Rightarrow> i)"

section \<open>config.go\<close>

record CommitEmailConfig =
  MailingList :: string
  Email_Format :: string

section \<open>What the code calls and the sources do not hold\<close>

text \<open>
  Library calls (Go's standard library, go-github, ghinstallation, BurntSushi/toml), the
  operating system, and the functions of this repository that are not among the
  sources (\<^verbatim>\<open>SyncRepo\<close> and \<^verbatim>\<open>GitShow\<close> of the current snapshot, the \<^verbatim>\<open>stats\<close>
  database) are parameters: fields of one record, over which every theorem quantifies.
  \<open>'c\<close> is the GitHub client built from the installation transport.

  \<^item> \<open>toml_Decode\<close> returns the decoded configuration and \<^verbatim>\<open>meta.Undecoded()\<close>, the
    keys of the file the struct has no field for;
  \<^item> \<open>json_Decode\<close> is \<^verbatim>\<open>(*json.Decoder).Decode\<close> into the configuration struct; with
    the value it returns the keys of the object that match no field of the struct, in
    the order of the input;
  \<^item> \<open>cmd_Output\<close> is \<^verbatim>\<open>(*exec.Cmd).Output\<close>: it runs the process, which may change the
    world, and returns its standard output or an error;
  \<^item> \<open>os_Stat\<close> is \<^verbatim>\<open>os.Stat\<close>, see \<open>stat_result\<close> below.
\<close>

datatype stat_result =
    StatNotExist
  | StatFailed error
  | StatInfo bool

record GithubSender =
  Login :: string

record GithubRepo =
  FullName :: string
  CloneUrl :: string
  Private :: bool

record GithubGenericEvent =
  Repository :: GithubRepo
  Sender :: GithubSender

record Pusher =
  Name :: string
  Email :: string

text \<open>
  The earlier snapshot's push event embeds a pointer to the generic event
  (\<^verbatim>\<open>*GithubGenericEvent\<close>), here the field \<open>Generic\<close>: \<open>None\<close> is the \<^verbatim>\<open>nil\<close> pointer.
\<close>

record GithubPushEvent =
  Generic :: "GithubGenericEvent option"
  Ref :: string
  Before :: string
  After :: string
  Pusher :: Pusher

record CommitEmailConfig_json =
  mailingList :: string
  emailFormat :: string

record ('w, 'c) ext =
  ValidatePayload :: "Request \<Rightarrow> string \<Rightarrow> error + string"
  ParseWebHook :: "string \<Rightarrow> string \<Rightarrow> error + Event"
  ghinstallation_New :: "int \<Rightarrow> int \<Rightarrow> string \<Rightarrow> error + 'c"
  SyncRepo :: "'c \<Rightarrow> PushEventRepository option \<Rightarrow> 'w \<Rightarrow> (error + string) \<times> 'w"
  GitShow :: "string \<Rightarrow> string \<Rightarrow> string \<Rightarrow> 'w \<Rightarrow> error + string"
  toml_Decode :: "string \<Rightarrow> error + CommitEmailConfig \<times> string list"
  db_AddPush :: "PushEvent \<Rightarrow> 'w \<Rightarrow> 'w"
  db_AddInstallation :: "InstallationEvent \<Rightarrow> 'w \<Rightarrow> 'w"
  db_UpdateInstallation :: "InstallationEvent \<Rightarrow> 'w \<Rightarrow> 'w"
  os_Environ :: "string list"
  os_Stat :: "string \<Rightarrow> 'w \<Rightarrow> stat_result"
  cmd_Output :: "Cmd \<Rightarrow> 'w \<Rightarrow> (error + string) \<times> 'w"
  Sscanf_sha256_x :: "string \<Rightarrow> error + string"
  hmac_sha256 :: "string \<Rightarrow> string \<Rightarrow> string"
  json_Unmarshal_push :: "string \<Rightarrow> error + GithubPushEvent"
  json_Unmarshal_generic :: "string \<Rightarrow> error + GithubGenericEvent"
  json_Decode :: "string \<Rightarrow> error + CommitEmailConfig_json \<times> string list"
  strconv_Quote :: "string \<Rightarrow> string"

text \<open>Running a command appends it to the record of subprocesses.\<close>

definition Output :: "('w, 'c) ext \<Rightarrow> Cmd \<Rightarrow> 'w state \<Rightarrow> (error + string) \<times> 'w state" where
  "Output ext c s =
     (case cmd_Output ext c (world s) of
        (r, w') \<Rightarrow> (r, s\<lparr>world := w', spawned := spawned s @ [c]\<rparr>))"

definition log_append :: "log_record list \<Rightarrow> 'w state \<Rightarrow> 'w state" where
  "log_append rs s = s\<lparr>logged := logged s @ rs\<rparr>"

section \<open>config.go: parseConfig and getConfig\<close>

text \<open>
  \<^verbatim>\<open>parseConfig\<close> returns the configuration or an error, and the records it logs. Keys
  the struct does not know are logged as one warning and do not fail; a format other
  than the empty string, \<^verbatim>\<open>html\<close> and \<^verbatim>\<open>text\<close> is an error.
\<close>

definition parseConfig ::
  "('w, 'c) ext \<Rightarrow> string \<Rightarrow> (error + CommitEmailConfig) \<times> log_record list" where
  "parseConfig ext configText =
     (case toml_Decode ext configText of
        Inl err \<Rightarrow>
          (Inl (ErrorString (''decoding commit-emails.toml: '' @ Error err)), [])
      | Inr (config, undecoded) \<Rightarrow>
          let warned =
                (if length undecoded > 0
                 then [Slog LevelWarn ''unknown config fields''
                         [(''fields'', strings_Join undecoded '', '')]]
                 else []);
              format = Email_Format config
          in if \<not> (format = '''' \<or> format = ''html'' \<or> format = ''text'')
             then (Inl (ErrorString
                     (''invalid email.format (should be html or text): '' @ format)), warned)
             else (Inr config, warned))"

text \<open>
  \<^verbatim>\<open>getConfig\<close> reads \<^verbatim>\<open>.github/commit-emails.toml\<close> at \<^verbatim>\<open>HEAD\<close> of the mirror; any failure
  of \<^verbatim>\<open>GitShow\<close> is reported as \<^verbatim>\<open>MissingConfigError\<close>.
\<close>

definition getConfig ::
  "('w, 'c) ext \<Rightarrow> string \<Rightarrow> 'w \<Rightarrow> (error + CommitEmailConfig) \<times> log_record list" where
  "getConfig ext gitRepo w =
     (case GitShow ext gitRepo ''HEAD'' ''.github/commit-emails.toml'' w of
        Inl err \<Rightarrow> (Inl MissingConfigError, [])
      | Inr configText \<Rightarrow> parseConfig ext configText)"

section \<open>mailbot.go, current snapshot: the push pipeline\<close>

record AppConfig =
  Hostname :: string
  PersistPath :: string
  Port :: string
  EmailStdout :: bool
  WebhookSecret :: string
  SmtpPassword :: string
  AppId :: int
  AppPrivateKey :: string

record PushHandler =
  installation :: int
  repo :: string

text \<open>
  Both snapshots build the notifier's command with the same statements, which are
  functions here. \<open>notifier_args\<close> is lines 294-305 (and 642-654): \<^verbatim>\<open>--stdout\<close> when
  the SMTP password is empty, the mailing list, and the format when it is not empty.
\<close>

definition notifier_args :: "string \<Rightarrow> string \<Rightarrow> string \<Rightarrow> string list" where
  "notifier_args password mailing format =
     (let args0 = (if password = '''' then [''--stdout''] else []);
          args1 = args0 @ [''-c'', ''multimailhook.mailingList='' @ mailing]
      in if format \<noteq> ''''
         then args1 @ [''-c'', ''multimailhook.commitEmailFormat='' @ format]
         else args1)"

text \<open>
  Lines 306-307, of the current snapshot only: the sender and the URL to browse a commit
  at (\<^verbatim>\<open>%%\<close> in the format string prints one \<^verbatim>\<open>%\<close>).
\<close>

definition notifier_args_from :: "string list \<Rightarrow> string \<Rightarrow> string \<Rightarrow> string list" where
  "notifier_args_from args committer url =
     args @ [''-c'', ''multimailhook.from='' @ committer @ '' <notifications@commit-emails.xyz>'']
          @ [''-c'', ''multimailhook.commitBrowseURL='' @ url @ ''/commit/%(id)s'']"

text \<open>
  Lines 308-321 (and 655-668): the command, its standard input and its environment. The
  SMTP password goes into the environment, in \<^verbatim>\<open>GIT_CONFIG_PARAMETERS\<close>, between single
  quotes.
\<close>

definition notifier_Cmd ::
  "string list \<Rightarrow> string list \<Rightarrow> string \<Rightarrow> string \<Rightarrow> string \<Rightarrow> string \<Rightarrow> string \<Rightarrow> Cmd" where
  "notifier_Cmd environ args before after ref gitDir password =
     (exec_Command ''./git_multimail_wrapper.py'' args)\<lparr>
        Stdin := before @ '' '' @ after @ '' '' @ ref,
        Env := environ @
          [''GIT_DIR='' @ gitDir,
           ''GIT_CONFIG_GLOBAL='' @ ''git-multimail.config'',
           ''GIT_CONFIG_PARAMETERS='' @
             [CHR 0x27] @ ''multimailhook.smtpPass='' @ password @ [CHR 0x27]]\<rparr>"

text \<open>
  Lines 327-330 (and 673-676): an \<^verbatim>\<open>*exec.ExitError\<close> of the notifier is reported with
  its process state and standard error, any other error as it is.
\<close>

definition wrapper_failed :: "error \<Rightarrow> error" where
  "wrapper_failed err =
     (case err of
        ExitError pstate stderr \<Rightarrow>
          ErrorString (''git_multimail_wrapper.py failed: '' @ pstate @ '':'' @ [CHR 0x0A] @ stderr)
      | _ \<Rightarrow> err)"

text \<open>
  \<^verbatim>\<open>PushHandler.githubPushHandler\<close>, lines 279-331. A \<^verbatim>\<open>nil\<close> pointer among
  \<^verbatim>\<open>*ev.Installation.ID\<close>, \<^verbatim>\<open>*ev.HeadCommit.Committer.Name\<close>, \<^verbatim>\<open>*ev.Repo.HTMLURL\<close>,
  \<^verbatim>\<open>*ev.Before\<close>, \<^verbatim>\<open>*ev.After\<close> and \<^verbatim>\<open>*ev.Ref\<close> panics where it is dereferenced; the
  last five are dereferenced after \<^verbatim>\<open>getConfig\<close> and before the notifier is started.
  The check for \<^verbatim>\<open>MissingConfigError\<close> is made on the error of \<^verbatim>\<open>SyncRepo\<close>; an error
  of \<^verbatim>\<open>getConfig\<close> is wrapped and returned.
\<close>

definition PushHandler_githubPushHandler ::
  "('w, 'c) ext \<Rightarrow> AppConfig \<Rightarrow> PushHandler \<Rightarrow> PushEvent \<Rightarrow> 'w state
     \<Rightarrow> error option outcome \<times> 'w state" where
  "PushHandler_githubPushHandler ext Cfg h ev s =
     (case Option.bind (PushEvent.Installation ev) ID of
        None \<Rightarrow> (Panic, s)
      | Some installationID \<Rightarrow>
     (case ghinstallation_New ext (AppId Cfg) installationID (AppPrivateKey Cfg) of
        Inl err \<Rightarrow> (Return (Some err), s)
      | Inr client \<Rightarrow>
     (case SyncRepo ext client (Repo ev) (world s) of
        (Inl err, w1) \<Rightarrow>
          (if err = MissingConfigError
           then (Return None,
                 log_append [Slog LevelInfo ''push to unconfigured repo'' [(''repo'', repo h)]]
                   (s\<lparr>world := w1\<rparr>))
           else (Return (Some err), s\<lparr>world := w1\<rparr>))
      | (Inr gitDir, w1) \<Rightarrow>
     (case getConfig ext gitDir w1 of
        (Inl err, recs) \<Rightarrow>
          (Return (Some (ErrorString
             (''could not get config for '' @ repo h @ '': '' @ Error err))),
           log_append recs (s\<lparr>world := w1\<rparr>))
      | (Inr config, recs) \<Rightarrow>
     (let s2 = log_append recs (s\<lparr>world := w1\<rparr>) in
     (case Option.bind (Option.bind (HeadCommit ev) Committer) CommitAuthor.Name of
        None \<Rightarrow> (Panic, s2)
      | Some committer \<Rightarrow>
     (case Option.bind (Repo ev) HTMLURL of
        None \<Rightarrow> (Panic, s2)
      | Some url \<Rightarrow>
     (case PushEvent.Before ev of
        None \<Rightarrow> (Panic, s2)
      | Some before \<Rightarrow>
     (case PushEvent.After ev of
        None \<Rightarrow> (Panic, s2)
      | Some after \<Rightarrow>
     (case PushEvent.Ref ev of
        None \<Rightarrow> (Panic, s2)
      | Some ref \<Rightarrow>
     (case Output ext
             (notifier_Cmd (os_Environ ext)
                (notifier_args_from
                   (notifier_args (SmtpPassword Cfg) (MailingList config) (Email_Format config))
                   committer url)
                before after ref gitDir (SmtpPassword Cfg)) s2 of
        (Inr output, s3) \<Rightarrow> (Return None, s3\<lparr>printed := printed s3 @ [output]\<rparr>)
      | (Inl err, s3) \<Rightarrow> (Return (Some (wrapper_failed err)), s3))))))))))))"

text \<open>
  \<^verbatim>\<open>Server.githubEventHandler\<close>, lines 224-277. After a parse error the handler writes
  the 400 response and does not return: it goes on to the type switch with a \<^verbatim>\<open>nil\<close>
  event, which matches the default case. After a successful push the first 8 bytes of
  \<^verbatim>\<open>*event.Before\<close> and \<^verbatim>\<open>*event.After\<close> are sliced for the log: a \<^verbatim>\<open>nil\<close> pointer or
  a string shorter than 8 panics.
\<close>

definition slice8 :: "string \<Rightarrow> string outcome" where
  "slice8 x = (if length x < 8 then Panic else Return (take 8 x))"

definition Server_githubEventHandler ::
  "('w, 'c) ext \<Rightarrow> AppConfig \<Rightarrow> Request \<Rightarrow> ResponseWriter \<Rightarrow> 'w state
     \<Rightarrow> unit outcome \<times> ResponseWriter \<times> 'w state" where
  "Server_githubEventHandler ext Cfg req w s =
     (case ValidatePayload ext req (WebhookSecret Cfg) of
        Inl err \<Rightarrow>
          (Return (),
           http_Error w (''could not validate payload: '' @ Error err) StatusBadRequest, s)
      | Inr payload \<Rightarrow>
     (let (event, w1) =
            (case ParseWebHook ext (Header_Get req ''X-GitHub-Event'') payload of
               Inl err \<Rightarrow>
                 (None, http_Error w (''could not parse webhook: '' @ Error err) StatusBadRequest)
             | Inr e \<Rightarrow> (Some e, w))
      in
     (case event of
        Some PingEvent \<Rightarrow> (Return (), Write w1 ''Pong'', s)
      | Some (PushEvent event) \<Rightarrow>
          (let repo = GetRepo_GetFullName event in
          (case PushHandler_githubPushHandler ext Cfg
                  \<lparr>installation = GetInstallation_GetID event, repo = repo\<rparr> event s of
             (Panic, s1) \<Rightarrow> (Panic, w1, s1)
           | (Return (Some err), s1) \<Rightarrow>
               (let msg = ''push handler failed: '' @ Error err in
                (Return (), http_Error w1 msg StatusBadRequest,
                 log_append [Slog LevelError ''push handler''
                    [(''error'', msg), (''repo'', repo)]] s1))
           | (Return None, s1) \<Rightarrow>
               (let s2 = s1\<lparr>world := db_AddPush ext event (world s1)\<rparr>;
                    w2 = Write w1 ''OK''
                in
               (case PushEvent.Before event of
                  None \<Rightarrow> (Panic, w2, s2)
                | Some b \<Rightarrow>
               (case slice8 b of
                  Panic \<Rightarrow> (Panic, w2, s2)
                | Return before \<Rightarrow>
               (case PushEvent.After event of
                  None \<Rightarrow> (Panic, w2, s2)
                | Some a \<Rightarrow>
               (case slice8 a of
                  Panic \<Rightarrow> (Panic, w2, s2)
                | Return after \<Rightarrow>
                  (Return (), w2,
                   log_append [Slog LevelInfo ''push success''
                      [(''repo'', repo),
                       (''ref change'',
                        GetString (PushEvent.Ref event) @ '': '' @ before @ '' -> '' @ after)]]
                     s2))))))))
      | Some (InstallationEvent event) \<Rightarrow>
          (Return (), w1,
           (log_append [Slog LevelInfo ''installation''
              [(''action'', GetString (Action event)),
               (''account'', GetString (AccountLogin event))]] s)
             \<lparr>world := db_AddInstallation ext event (world s)\<rparr>)
      | Some (InstallationRepositoriesEvent event) \<Rightarrow>
          (Return (), w1,
           (log_append [Slog LevelInfo ''installation''
              [(''action'', GetString (Action event)),
               (''account'', GetString (AccountLogin event))]] s)
             \<lparr>world := db_UpdateInstallation ext event (world s)\<rparr>)
      | _ \<Rightarrow> (Return (), w1, s))))"

section \<open>path/filepath on Unix: Clean and Join\<close>

text \<open>
  The mirror directory is computed with Go's \<^verbatim>\<open>filepath.Join\<close>, which joins the
  non-empty elements with a slash (from the first non-empty one on) and cleans the
  result. \<^verbatim>\<open>filepath.Clean\<close> is modelled from its documented rules, element by element:
  empty elements and \<^verbatim>\<open>.\<close> are dropped; \<^verbatim>\<open>..\<close> removes the element before it when
  there is one that is not \<^verbatim>\<open>..\<close>, is dropped at the root of a rooted path, and is
  kept otherwise; the empty result is \<^verbatim>\<open>.\<close>.
\<close>

fun split_slash :: "string \<Rightarrow> string list" where
  "split_slash [] = [[]]"
| "split_slash (c # cs) =
     (if c = CHR ''/'' then [] # split_slash cs
      else (case split_slash cs of
              [] \<Rightarrow> [[c]]
            | x # xs \<Rightarrow> (c # x) # xs))"

definition clean_step :: "bool \<Rightarrow> string list \<Rightarrow> string \<Rightarrow> string list" where
  "clean_step rooted out elem =
     (if elem = '''' \<or> elem = ''.'' then out
      else if elem = ''..''
      then (if out \<noteq> [] \<and> last out \<noteq> ''..'' then butlast out
            else if rooted then out
            else out @ [''..''])
      else out @ [elem])"

definition filepath_Clean :: "string \<Rightarrow> string" where
  "filepath_Clean path =
     (if path = '''' then ''.''
      else
        let rooted = (hd path = CHR ''/'');
            out = foldl (clean_step rooted) [] (split_slash path)
        in if rooted then ''/'' @ strings_Join out ''/''
           else if out = [] then ''.''
           else strings_Join out ''/'')"

definition filepath_Join :: "string list \<Rightarrow> string" where
  "filepath_Join elem =
     (case dropWhile (\<lambda>e. e = '''') elem of
        [] \<Rightarrow> ''''
      | e # es \<Rightarrow> filepath_Clean (strings_Join (e # es) ''/''))"

section \<open>mailbot.go, earlier snapshot\<close>

text \<open>The package-level variables set by \<^verbatim>\<open>main\<close> from the flags and the environment.\<close>

record Globals =
  hostname :: string
  persistPath :: string
  port :: string
  webhookSecret :: string
  smtpPassword :: string

text \<open>\<^verbatim>\<open>%v\<close> of a slice of strings.\<close>

definition fmt_v :: "string list \<Rightarrow> string" where
  "fmt_v xs = ''['' @ strings_Join xs '' '' @ '']''"

text \<open>\<^verbatim>\<open>runGitCmd\<close>, lines 689-699.\<close>

definition runGitCmd ::
  "('w, 'c) ext \<Rightarrow> string \<Rightarrow> string list \<Rightarrow> 'w state \<Rightarrow> (error + string) \<times> 'w state" where
  "runGitCmd ext gitDir args s =
     (let cmd = (exec_Command ''git'' args)\<lparr>Env := os_Environ ext @ [''GIT_DIR='' @ gitDir]\<rparr>
      in (case Output ext cmd s of
            (Inr out, s') \<Rightarrow> (Inr out, s')
          | (Inl (ExitError pstate stderr), s') \<Rightarrow>
              (Inl (ErrorString (''git '' @ fmt_v args @ '' failed: '' @ pstate @ '': ''
                                  @ strconv_Quote ext stderr)), s')
          | (Inl err, s') \<Rightarrow> (Inl err, s')))"

text \<open>\<^verbatim>\<open>gitClone\<close> and \<^verbatim>\<open>gitFetch\<close>, lines 679-687: the error of the command, if any.\<close>

definition gitClone :: "('w, 'c) ext \<Rightarrow> string \<Rightarrow> string \<Rightarrow> 'w state \<Rightarrow> error option \<times> 'w state" where
  "gitClone ext url dest s =
     (case runGitCmd ext dest [''clone'', ''--bare'', ''--quiet'', url, dest] s of
        (Inl err, s') \<Rightarrow> (Some err, s')
      | (Inr out, s') \<Rightarrow> (None, s'))"

definition gitFetch :: "('w, 'c) ext \<Rightarrow> string \<Rightarrow> 'w state \<Rightarrow> error option \<times> 'w state" where
  "gitFetch ext gitDir s =
     (case runGitCmd ext gitDir [''fetch'', ''--quiet'', ''--force'', ''origin'', ''*:*''] s of
        (Inl err, s') \<Rightarrow> (Some err, s')
      | (Inr out, s') \<Rightarrow> (None, s'))"

text \<open>
  \<^verbatim>\<open>syncRepo\<close>, lines 612-632: clone when \<^verbatim>\<open>os.Stat\<close> says the directory does not
  exist, fail on another error of \<^verbatim>\<open>os.Stat\<close> or on a path that is not a directory, and
  fetch in every case that is left, also right after the clone.
\<close>

definition syncRepo :: "('w, 'c) ext \<Rightarrow> string \<Rightarrow> string \<Rightarrow> 'w state \<Rightarrow> error option \<times> 'w state" where
  "syncRepo ext gitDir url s =
     (case os_Stat ext gitDir (world s) of
        StatNotExist \<Rightarrow>
          (case gitClone ext url gitDir s of
             (Some err, s1) \<Rightarrow> (Some err, s1)
           | (None, s1) \<Rightarrow>
               gitFetch ext gitDir
                 (log_append [Printf (''Cloned '' @ url @ '' to '' @ gitDir)] s1))
      | StatFailed err \<Rightarrow> (Some err, s)
      | StatInfo isDir \<Rightarrow>
          (if \<not> isDir
           then (Some (ErrorString (gitDir @ '' exists and is not a directory'')), s)
           else gitFetch ext gitDir s))"

text \<open>
  A \<^verbatim>\<open>json.Decoder\<close> after \<^verbatim>\<open>dec.DisallowUnknownFields()\<close>, lines 486-488: the first key
  that matches no field of the struct makes \<^verbatim>\<open>Decode\<close> return the error
  \<^verbatim>\<open>json: unknown field "key"\<close>.
\<close>

definition json_Decode_strict :: "('w, 'c) ext \<Rightarrow> string \<Rightarrow> error + CommitEmailConfig_json" where
  "json_Decode_strict ext src =
     (case json_Decode ext src of
        Inl err \<Rightarrow> Inl err
      | Inr (config, unknown) \<Rightarrow>
          (case unknown of
             [] \<Rightarrow> Inr config
           | k # ks \<Rightarrow> Inl (ErrorString (''json: unknown field '' @ strconv_Quote ext k))))"

text \<open>
  \<^verbatim>\<open>getConfig\<close> of the earlier snapshot, lines 482-499 (here \<open>getConfig_json\<close>): the file
  is \<^verbatim>\<open>.github/commit-emails.json\<close>, read with \<^verbatim>\<open>git show\<close> and decoded with unknown
  fields disallowed.
\<close>

definition getConfig_json ::
  "('w, 'c) ext \<Rightarrow> string \<Rightarrow> 'w state \<Rightarrow> (error + CommitEmailConfig_json) \<times> 'w state" where
  "getConfig_json ext gitRepo s =
     (case runGitCmd ext gitRepo [''show'', ''HEAD:.github/commit-emails.json''] s of
        (Inl err, s') \<Rightarrow> (Inl err, s')
      | (Inr configText, s') \<Rightarrow>
          (case json_Decode_strict ext configText of
             Inl err \<Rightarrow>
               (Inl (ErrorString (''decoding commit-emails.json: '' @ Error err)), s')
           | Inr config \<Rightarrow>
               (if emailFormat config \<noteq> '''' \<and>
                   \<not> (emailFormat config = ''html'' \<or> emailFormat config = ''text'')
                then (Inl (ErrorString (''invalid emailFormat (should be html or text): ''
                             @ strconv_Quote ext (emailFormat config))), s')
                else (Inr config, s'))))"

text \<open>
  \<^verbatim>\<open>githubPushHandler\<close>, lines 634-677. \<^verbatim>\<open>ev.Repository\<close> goes through the embedded
  pointer and panics when it is \<^verbatim>\<open>nil\<close>.
\<close>

definition githubPushHandler ::
  "('w, 'c) ext \<Rightarrow> Globals \<Rightarrow> GithubPushEvent \<Rightarrow> 'w state \<Rightarrow> error option outcome \<times> 'w state" where
  "githubPushHandler ext g ev s =
     (case Generic ev of
        None \<Rightarrow> (Panic, s)
      | Some generic \<Rightarrow>
     (let gitDir = filepath_Join [persistPath g, ''repos'', ''github.com'',
                                  GithubRepo.FullName (Repository generic)]
      in
     (case syncRepo ext gitDir (CloneUrl (Repository generic)) s of
        (Some err, s1) \<Rightarrow> (Return (Some err), s1)
      | (None, s1) \<Rightarrow>
     (case getConfig_json ext gitDir
             (log_append [Printf (''git_multimail_wrapper.py '' @ Before ev @ '' '' @ After ev
                                   @ '' '' @ Ref ev)] s1) of
        (Inl err, s3) \<Rightarrow>
          (let msg = ''no commit-emails.json found for '' @ GithubRepo.FullName (Repository generic)
                       @ '': '' @ Error err
           in (Return (Some (ErrorString msg)), log_append [Printf msg] s3))
      | (Inr config, s3) \<Rightarrow>
     (case Output ext
             (notifier_Cmd (os_Environ ext)
                (notifier_args (smtpPassword g) (mailingList config) (emailFormat config))
                (Before ev) (After ev) (Ref ev) gitDir (smtpPassword g)) s3 of
        (Inr out, s4) \<Rightarrow> (Return None, s4)
      | (Inl err, s4) \<Rightarrow> (Return (Some (wrapper_failed err)), s4))))))"

text \<open>
  \<^verbatim>\<open>githubEventHandler\<close>, lines 537-610, in two parts. The first, lines 538-559 (here
  \<open>verifySignature\<close>), ends in a response with status 400 or in the payload: the method
  must be \<^verbatim>\<open>POST\<close>, the header \<^verbatim>\<open>X-Hub-Signature-256\<close> must scan as \<^verbatim>\<open>sha256=%x\<close>, and
  the bytes scanned must equal the HMAC of the payload under the webhook secret
  (\<^verbatim>\<open>hmac.Equal\<close> is equality of the two slices). The body is read through
  \<^verbatim>\<open>http.MaxBytesReader\<close> with a limit of \<^verbatim>\<open>1024*1024\<close> bytes and the error of
  \<^verbatim>\<open>io.ReadAll\<close> is dropped, so the payload is the first 1048576 bytes of the body.
\<close>

definition verifySignature :: "('w, 'c) ext \<Rightarrow> Globals \<Rightarrow> Request \<Rightarrow> string + string" where
  "verifySignature ext g req =
     (if Method req \<noteq> ''POST''
      then Inl (''unexpected method: '' @ Method req)
      else
     (case Sscanf_sha256_x ext (Header_Get req ''X-Hub-Signature-256'') of
        Inl err \<Rightarrow> Inl (''invalid signature: '' @ Error err)
      | Inr expectedHash \<Rightarrow>
     (let payload = take (1024 * 1024) (Body req);
          actualHash = hmac_sha256 ext (webhookSecret g) payload
      in if actualHash \<noteq> expectedHash
         then Inl ''signature verification failed''
         else Inr payload)))"

text \<open>
  The second part, lines 561-610. The value decoded from the payload is a push event or
  a generic event; the type assertion to the push event cannot fail, since a push event
  is what the payload of event type \<^verbatim>\<open>push\<close> is decoded into.
\<close>

datatype payloadData =
    PushData GithubPushEvent
  | GenericData GithubGenericEvent

definition GetRepository :: "payloadData \<Rightarrow> GithubRepo outcome" where
  "GetRepository pd =
     (case pd of
        GenericData e \<Rightarrow> Return (Repository e)
      | PushData e \<Rightarrow> (case Generic e of None \<Rightarrow> Panic | Some g \<Rightarrow> Return (Repository g)))"

definition GetSender :: "payloadData \<Rightarrow> GithubSender outcome" where
  "GetSender pd =
     (case pd of
        GenericData e \<Rightarrow> Return (Sender e)
      | PushData e \<Rightarrow> (case Generic e of None \<Rightarrow> Panic | Some g \<Rightarrow> Return (Sender g)))"

definition json_Unmarshal :: "('w, 'c) ext \<Rightarrow> string \<Rightarrow> string \<Rightarrow> error + payloadData" where
  "json_Unmarshal ext eventType payload =
     (if eventType = ''push''
      then (case json_Unmarshal_push ext payload of
              Inl err \<Rightarrow> Inl err | Inr e \<Rightarrow> Inr (PushData e))
      else (case json_Unmarshal_generic ext payload of
              Inl err \<Rightarrow> Inl err | Inr e \<Rightarrow> Inr (GenericData e)))"

definition githubEventHandler ::
  "('w, 'c) ext \<Rightarrow> Globals \<Rightarrow> Request \<Rightarrow> ResponseWriter \<Rightarrow> 'w state
     \<Rightarrow> unit outcome \<times> ResponseWriter \<times> 'w state" where
  "githubEventHandler ext g req w s =
     (case verifySignature ext g req of
        Inl msg \<Rightarrow> (Return (), http_Error w msg StatusBadRequest, s)
      | Inr payload \<Rightarrow>
     (let eventType = Header_Get req ''X-GitHub-Event'' in
      if eventType = ''''
      then (Return (), http_Error w ''no event type specified'' StatusBadRequest, s)
      else
     (case json_Unmarshal ext eventType payload of
        Inl err \<Rightarrow>
          (Return (), http_Error w (''failed to parse payload: '' @ Error err) StatusBadRequest, s)
      | Inr payloadData \<Rightarrow>
     (case (GetRepository payloadData, GetSender payloadData) of
        (Return repository, Return sender) \<Rightarrow>
     (let s0 = log_append [Printf (GithubRepo.FullName repository @ '': '' @ eventType
                                    @ '' from '' @ Login sender)] s
      in
      if eventType = ''ping''
      then
        (let url = CloneUrl repository;
             gitDir = filepath_Join [persistPath g, ''repos'', ''github.com'',
                                     GithubRepo.FullName repository]
         in
        (case syncRepo ext gitDir url s0 of
           (Some err, s1) \<Rightarrow>
             (let msg = ''syncing repo '' @ strconv_Quote ext url @ '' failed: '' @ Error err
              in (Return (), http_Error w msg StatusBadRequest, log_append [Printf msg] s1))
         | (None, s1) \<Rightarrow> (Return (), Write w ''Pong'', s1)))
      else if eventType = ''push''
      then
     (case payloadData of
        GenericData e \<Rightarrow> (Panic, w, s0)
      | PushData pushEvent \<Rightarrow>
          (case githubPushHandler ext g pushEvent s0 of
             (Panic, s1) \<Rightarrow> (Panic, w, s1)
           | (Return (Some err), s1) \<Rightarrow>
               (let msg = ''push handler failed: '' @ Error err
                in (Return (), http_Error w msg StatusBadRequest, log_append [Printf msg] s1))
           | (Return None, s1) \<Rightarrow>
               (let w1 = Write w ''OK'' in
               (case slice8 (Before pushEvent) of
                  Panic \<Rightarrow> (Panic, w1, s1)
                | Return before \<Rightarrow>
               (case slice8 (After pushEvent) of
                  Panic \<Rightarrow> (Panic, w1, s1)
                | Return after \<Rightarrow>
                  (Return (), w1,
                   log_append [Printf (GithubRepo.FullName repository @ '': push success: ''
                       @ Ref pushEvent @ '' '' @ before @ '' -> '' @ after)] s1))))))
      else (Return (), w, s0))
      | _ \<Rightarrow> (Panic, w, s)))))"

section \<open>crypto/sha256 and crypto/hmac\<close>

text \<open>
  The earlier snapshot checks the signature with \<^verbatim>\<open>hmac.New(sha256.New, secret)\<close>. The two
  library functions are modelled from their specifications (FIPS 180-4, as Go's
  \<^verbatim>\<open>blockGeneric\<close> computes it, and FIPS 198-1): evaluated by the code generator, these
  definitions give the digests of the standard examples (\<^verbatim>\<open>abc\<close>, the empty message, the
  56-byte message) and of RFC 4231's test cases 2 and 6. Bytes are \<open>char\<close>s, a slice of
  bytes is a \<open>string\<close>.
\<close>

type_synonym w32 = "32 word"

definition rotr :: "nat \<Rightarrow> w32 \<Rightarrow> w32" where
  "rotr n x = word_rotr n x"

definition sha256_K :: "w32 list" where
  "sha256_K =
    [0x428a2f98, 0x71374491, 0xb5c0fbcf, 0xe9b5dba5, 0x3956c25b, 0x59f111f1, 0x923f82a4, 0xab1c5ed5,
     0xd807aa98, 0x12835b01, 0x243185be, 0x550c7dc3, 0x72be5d74, 0x80deb1fe, 0x9bdc06a7, 0xc19bf174,
     0xe49b69c1, 0xefbe4786, 0x0fc19dc6, 0x240ca1cc, 0x2de92c6f, 0x4a7484aa, 0x5cb0a9dc, 0x76f988da,
     0x983e5152, 0xa831c66d, 0xb00327c8, 0xbf597fc7, 0xc6e00bf3, 0xd5a79147, 0x06ca6351, 0x14292967,
     0x27b70a85, 0x2e1b2138, 0x4d2c6dfc, 0x53380d13, 0x650a7354, 0x766a0abb, 0x81c2c92e, 0x92722c85,
     0xa2bfe8a1, 0xa81a664b, 0xc24b8b70, 0xc76c51a3, 0xd192e819, 0xd6990624, 0xf40e3585, 0x106aa070,
     0x19a4c116, 0x1e376c08, 0x2748774c, 0x34b0bcb5, 0x391c0cb3, 0x4ed8aa4a, 0x5b9cca4f, 0x682e6ff3,
     0x748f82ee, 0x78a5636f, 0x84c87814, 0x8cc70208, 0x90befffa, 0xa4506ceb, 0xbef9a3f7, 0xc67178f2]"

definition sha256_init :: "w32 list" where
  "sha256_init =
    [0x6a09e667, 0xbb67ae85, 0x3c6ef372, 0xa54ff53a, 0x510e527f, 0x9b05688c, 0x1f83d9ab, 0x5be0cd19]"

definition byte :: "char \<Rightarrow> w32" where
  "byte c = of_nat (of_char c)"

text \<open>Big-endian 32-bit words of a block.\<close>

fun be_words :: "string \<Rightarrow> w32 list" where
  "be_words (b0 # b1 # b2 # b3 # bs) =
     (push_bit 24 (byte b0) OR push_bit 16 (byte b1) OR push_bit 8 (byte b2) OR byte b3)
       # be_words bs"
| "be_words bs = []"

text \<open>The message schedule: \<open>schedule 48\<close> extends the 16 words of a block to 64.\<close>

primrec schedule :: "nat \<Rightarrow> w32 list \<Rightarrow> w32 list" where
  "schedule 0 w = w"
| "schedule (Suc n) w =
     (let i = length w;
          v1 = w ! (i - 2);
          t1 = rotr 17 v1 XOR rotr 19 v1 XOR drop_bit 10 v1;
          v2 = w ! (i - 15);
          t2 = rotr 7 v2 XOR rotr 18 v2 XOR drop_bit 3 v2
      in schedule n (w @ [t1 + w ! (i - 7) + t2 + w ! (i - 16)]))"

type_synonym regs = "w32 \<times> w32 \<times> w32 \<times> w32 \<times> w32 \<times> w32 \<times> w32 \<times> w32"

fun sha256_round :: "regs \<Rightarrow> w32 \<times> w32 \<Rightarrow> regs" where
  "sha256_round (a, b, c, d, e, f, g, h) (k, w) =
     (let t1 = h + (rotr 6 e XOR rotr 11 e XOR rotr 25 e) + ((e AND f) XOR (NOT e AND g)) + k + w;
          t2 = (rotr 2 a XOR rotr 13 a XOR rotr 22 a) + ((a AND b) XOR (a AND c) XOR (b AND c))
      in (t1 + t2, a, b, c, d + t1, e, f, g))"

fun sha256_block :: "w32 list \<Rightarrow> string \<Rightarrow> w32 list" where
  "sha256_block [h0, h1, h2, h3, h4, h5, h6, h7] p =
     (case foldl sha256_round (h0, h1, h2, h3, h4, h5, h6, h7)
             (zip sha256_K (schedule 48 (be_words p))) of
        (a, b, c, d, e, f, g, h) \<Rightarrow>
          [h0 + a, h1 + b, h2 + c, h3 + d, h4 + e, h5 + f, h6 + g, h7 + h])"
| "sha256_block hs p = hs"

fun sha256_blocks :: "nat \<Rightarrow> w32 list \<Rightarrow> string \<Rightarrow> w32 list" where
  "sha256_blocks 0 hs p = hs"
| "sha256_blocks (Suc n) hs p = sha256_blocks n (sha256_block hs (take 64 p)) (drop 64 p)"

text \<open>The \<open>n\<close> low bytes of a number, most significant first.\<close>

definition be_bytes :: "nat \<Rightarrow> nat \<Rightarrow> string" where
  "be_bytes n x = map (\<lambda>i. char_of (x div 256 ^ (n - 1 - i))) [0..<n]"

text \<open>The padding: \<^verbatim>\<open>0x80\<close>, zeros up to 56 modulo 64, and the length in bits on 8 bytes.\<close>

definition sha256_pad :: "nat \<Rightarrow> string" where
  "sha256_pad len =
     (let t = (if len mod 64 < 56 then 56 - len mod 64 else 64 + 56 - len mod 64)
      in CHR 0x80 # replicate (t - 1) (CHR 0x00) @ be_bytes 8 ((len * 8) mod 2 ^ 64))"

definition sha256_Sum256 :: "string \<Rightarrow> string" where
  "sha256_Sum256 p =
     (let padded = p @ sha256_pad (length p)
      in concat (map (\<lambda>w. be_bytes 4 (unat w))
           (sha256_blocks (length padded div 64) sha256_init padded)))"

text \<open>HMAC: a key longer than the block of 64 bytes is hashed first, then padded with zeros.\<close>

definition hmac_SHA256 :: "string \<Rightarrow> string \<Rightarrow> string" where
  "hmac_SHA256 key msg =
     (let key1 = (if length key > 64 then sha256_Sum256 key else key);
          key2 = key1 @ replicate (64 - length key1) (CHR 0x00);
          ipad = map (\<lambda>c. char_of ((of_char c :: nat) XOR 0x36)) key2;
          opad = map (\<lambda>c. char_of ((of_char c :: nat) XOR 0x5c)) key2
      in sha256_Sum256 (opad @ sha256_Sum256 (ipad @ msg)))"

section \<open>encoding/hex and fmt.Sscanf with the format sha256=%x\<close>

definition hexdigit :: "nat \<Rightarrow> char" where
  "hexdigit n = (if n < 10 then char_of (48 + n) else char_of (87 + n))"

text \<open>\<^verbatim>\<open>hex.EncodeToString\<close>: two lower-case digits for each byte, as GitHub sends a digest.\<close>

definition hex_EncodeToString :: "string \<Rightarrow> string" where
  "hex_EncodeToString bs =
     concat (map (\<lambda>c. [hexdigit (of_char c div 16), hexdigit (of_char c mod 16)]) bs)"

text \<open>\<^verbatim>\<open>hexDigit\<close> of \<^verbatim>\<open>fmt/scan.go\<close>: digits and letters of either case.\<close>

definition hexDigit :: "char \<Rightarrow> nat option" where
  "hexDigit c =
     (let n = (of_char c :: nat)
      in if 48 \<le> n \<and> n \<le> 57 then Some (n - 48)
         else if 97 \<le> n \<and> n \<le> 102 then Some (n - 87)
         else if 65 \<le> n \<and> n \<le> 70 then Some (n - 55)
         else None)"

text \<open>
  \<^verbatim>\<open>(*ss).hexString\<close>: pairs of hexadecimal digits are read until the next rune is not a
  digit or the input ends; a digit without its second digit is an error. What follows the
  last pair is left unread, and \<^verbatim>\<open>Sscanf\<close> does not look at it.
\<close>

fun hexString :: "string \<Rightarrow> error + string" where
  "hexString [] = Inr []"
| "hexString [c] =
     (case hexDigit c of None \<Rightarrow> Inr [] | Some v \<Rightarrow> Inl (ErrorString ''unexpected EOF''))"
| "hexString (c1 # c2 # cs) =
     (case hexDigit c1 of
        None \<Rightarrow> Inr []
      | Some v1 \<Rightarrow>
          (case hexDigit c2 of
             None \<Rightarrow> Inl (ErrorString ''illegal hex digit'')
           | Some v2 \<Rightarrow>
               (case hexString cs of
                  Inl e \<Rightarrow> Inl e
                | Inr bs \<Rightarrow> Inr (char_of (v1 * 16 + v2) # bs))))"

text \<open>
  \<^verbatim>\<open>(*ss).SkipSpace\<close> as \<^verbatim>\<open>Sscanf\<close> runs it: the runes of \<^verbatim>\<open>fmt\<close>'s table of spaces are
  skipped (in UTF-8: tab, vertical tab, form feed, carriage return, space, U+0085,
  U+00A0, U+1680, U+2000 to U+200A, U+2028, U+2029, U+202F, U+205F and U+3000); a
  newline is the error \<^verbatim>\<open>unexpected newline\<close>, here \<open>None\<close>.
\<close>

fun SkipSpace :: "string \<Rightarrow> string option" where
  "SkipSpace [] = Some []"
| "SkipSpace (c # cs) =
     (if c = CHR 0x0A then None
      else if c \<in> {CHR 0x09, CHR 0x0B, CHR 0x0C, CHR 0x0D, CHR 0x20} then SkipSpace cs
      else if c = CHR 0xC2 then
        (case cs of
           d # ds \<Rightarrow> if d = CHR 0x85 \<or> d = CHR 0xA0 then SkipSpace ds else Some (c # cs)
         | [] \<Rightarrow> Some (c # cs))
      else if c \<in> {CHR 0xE1, CHR 0xE2, CHR 0xE3} then
        (case cs of
           d # e # es \<Rightarrow>
             if (c = CHR 0xE1 \<and> d = CHR 0x9A \<and> e = CHR 0x80)
                \<or> (c = CHR 0xE2 \<and> d = CHR 0x80 \<and>
                    ((128 \<le> (of_char e :: nat) \<and> (of_char e :: nat) \<le> 138)
                      \<or> e = CHR 0xA8 \<or> e = CHR 0xA9 \<or> e = CHR 0xAF))
                \<or> (c = CHR 0xE2 \<and> d = CHR 0x81 \<and> e = CHR 0x9F)
                \<or> (c = CHR 0xE3 \<and> d = CHR 0x80 \<and> e = CHR 0x80)
             then SkipSpace es else Some (c # cs)
         | _ \<Rightarrow> Some (c # cs))
      else Some (c # cs))"

text \<open>
  \<^verbatim>\<open>fmt.Sscanf(sig, "sha256=%x", &expectedHash)\<close>, as the value scanned when it returns
  \<^verbatim>\<open>n = 1\<close> and as its error otherwise: the input must start with \<^verbatim>\<open>sha256=\<close>; spaces are
  skipped; at least one pair of hexadecimal digits must follow.
\<close>

definition fmt_Sscanf_sha256_x :: "string \<Rightarrow> error + string" where
  "fmt_Sscanf_sha256_x str =
     (if take 7 str \<noteq> ''sha256=''
      then Inl (ErrorString (if str = take (length str) ''sha256='' then ''unexpected EOF''
                             else ''input does not match format''))
      else
        (case SkipSpace (drop 7 str) of
           None \<Rightarrow> Inl (ErrorString ''unexpected newline'')
         | Some [] \<Rightarrow> Inl (ErrorString ''EOF'')
         | Some rest \<Rightarrow>
             (case hexString rest of
                Inl e \<Rightarrow> Inl e
              | Inr [] \<Rightarrow> Inl (ErrorString ''no hex data for %x string'')
              | Inr bs \<Rightarrow> Inr bs)))"

section \<open>A concrete environment\<close>

text \<open>
  A small environment on which the definitions can be run. The world is the list of
  directories holding a mirror. \<^verbatim>\<open>git clone\<close> of the one repository that exists creates
  the destination, \<^verbatim>\<open>git fetch\<close> changes nothing, \<^verbatim>\<open>git show\<close> and \<^verbatim>\<open>GitShow\<close> return
  the configuration file given as \<open>file\<close> (or fail), the decoders return \<open>toml\<close> and
  \<open>json\<close>, and the notifier prints one line. Every payload decodes to the same event
  of the repository \<^verbatim>\<open>o/r\<close>, but the payload \<^verbatim>\<open>short\<close>, whose push event has the
  before-SHA \<^verbatim>\<open>abc\<close>. The signature of the earlier snapshot is
  scanned and computed by the models of \<^verbatim>\<open>fmt.Sscanf\<close> and of HMAC-SHA256 above; the
  functions of go-github stand in for the real ones (\<open>ValidatePayload\<close> compares the
  header with the secret itself).
\<close>

definition demo_push :: PushEvent where
  "demo_push =
     \<lparr>PushEvent.Ref = Some ''refs/heads/main'',
      PushEvent.Before = Some ''aaaaaaaaaaaaaaaaaaaaaaaaaaaaaaaaaaaaaaaa'',
      PushEvent.After = Some ''bbbbbbbbbbbbbbbbbbbbbbbbbbbbbbbbbbbbbbbb'',
      Repo = Some \<lparr>PushEventRepository.FullName = Some ''o/r'',
                   HTMLURL = Some ''https://github.com/o/r''\<rparr>,
      HeadCommit = Some \<lparr>Committer = Some \<lparr>CommitAuthor.Name = Some ''Ada''\<rparr>\<rparr>,
      Installation = Some \<lparr>ID = Some 7\<rparr>\<rparr>"

definition demo_generic :: GithubGenericEvent where
  "demo_generic =
     \<lparr>Repository = \<lparr>FullName = ''o/r'', CloneUrl = ''https://github.com/o/r.git'',
                     Private = False\<rparr>,
      Sender = \<lparr>Login = ''ada''\<rparr>\<rparr>"

definition demo_push_old :: GithubPushEvent where
  "demo_push_old =
     \<lparr>Generic = Some demo_generic,
      Ref = ''refs/heads/main'',
      Before = ''aaaaaaaaaaaaaaaaaaaaaaaaaaaaaaaaaaaaaaaa'',
      After = ''bbbbbbbbbbbbbbbbbbbbbbbbbbbbbbbbbbbbbbbb'',
      Pusher = \<lparr>Name = ''Ada'', Email = ''ada@example.org''\<rparr>\<rparr>"

definition demo_Output :: "error + string \<Rightarrow> Cmd \<Rightarrow> string list \<Rightarrow> (error + string) \<times> string list" where
  "demo_Output file c w =
     (if Path c = ''./git_multimail_wrapper.py'' then (Inr ''sent'', w)
      else if take 2 (Args c) = [''git'', ''clone'']
      then (if Args c ! 4 = ''https://github.com/o/r.git''
            then (Inr '''', Args c ! 5 # w)
            else (Inl (ExitError ''exit status 128'' ''fatal: repository not found''), w))
      else if take 2 (Args c) = [''git'', ''show''] then (file, w)
      else (Inr '''', w))"

definition demo_ext ::
  "error + string \<Rightarrow> error + CommitEmailConfig \<times> string list
     \<Rightarrow> error + CommitEmailConfig_json \<times> string list \<Rightarrow> (string list, unit) ext" where
  "demo_ext file toml json =
     \<lparr>ValidatePayload = (\<lambda>req secret.
        if Header req ''X-Hub-Signature-256'' = Some (''sha256='' @ secret)
        then Inr (Body req) else Inl (ErrorString ''payload signature check failed'')),
      ParseWebHook = (\<lambda>t payload.
        if t = ''ping'' then Inr PingEvent
        else if t = ''push''
        then Inr (PushEvent (if payload = ''short''
                             then demo_push\<lparr>PushEvent.Before := Some ''abc''\<rparr>
                             else demo_push))
        else Inr OtherEvent),
      ghinstallation_New = (\<lambda>app inst key. Inr ()),
      SyncRepo = (\<lambda>client r w. (Inr ''persist/repos/github.com/o/r'', w)),
      GitShow = (\<lambda>dir rev path w. file),
      toml_Decode = (\<lambda>text. toml),
      db_AddPush = (\<lambda>e w. w),
      db_AddInstallation = (\<lambda>e w. w),
      db_UpdateInstallation = (\<lambda>e w. w),
      os_Environ = [''PATH=/usr/bin''],
      os_Stat = (\<lambda>p w. if p \<in> set w then StatInfo True else StatNotExist),
      cmd_Output = demo_Output file,
      Sscanf_sha256_x = fmt_Sscanf_sha256_x,
      hmac_sha256 = hmac_SHA256,
      json_Unmarshal_push = (\<lambda>payload.
        if payload = [] then Inl (ErrorString ''unexpected end of JSON input'')
        else Inr (if payload = ''short'' then demo_push_old\<lparr>Before := ''abc''\<rparr>
                  else demo_push_old)),
      json_Unmarshal_generic = (\<lambda>payload.
        if payload = [] then Inl (ErrorString ''unexpected end of JSON input'')
        else Inr demo_generic),
      json_Decode = (\<lambda>text. json),
      strconv_Quote = (\<lambda>x. [CHR 0x22] @ x @ [CHR 0x22])\<rparr>"

definition demo_config :: CommitEmailConfig where
  "demo_config = \<lparr>MailingList = ''dev@example.org'', Email_Format = ''html''\<rparr>"

definition demo_config_json :: CommitEmailConfig_json where
  "demo_config_json = \<lparr>mailingList = ''dev@example.org'', emailFormat = ''html''\<rparr>"

definition demo_Cfg :: AppConfig where
  "demo_Cfg =
     \<lparr>Hostname = ''localhost'', PersistPath = ''persist'', Port = ''8888'',
      EmailStdout = False, WebhookSecret = ''s3cret'', SmtpPassword = ''hunter2'',
      AppId = 1, AppPrivateKey = ''key''\<rparr>"

definition demo_Globals :: Globals where
  "demo_Globals =
     \<lparr>hostname = ''localhost'', persistPath = ''persist'', port = ''8888'',
      webhookSecret = ''s3cret'', smtpPassword = ''hunter2''\<rparr>"

definition demo_state :: "string list state" where
  "demo_state = \<lparr>world = [], spawned = [], logged = [], printed = []\<rparr>"

definition demo_request :: "string \<Rightarrow> string \<Rightarrow> Request" where
  "demo_request eventType body =
     \<lparr>Method = ''POST'',
      Header = [''X-Hub-Signature-256'' \<mapsto> ''sha256=s3cret'', ''X-GitHub-Event'' \<mapsto> eventType],
      Body = body\<rparr>"

section \<open>Notions the properties are stated with\<close>

text \<open>The subprocesses run between two states, and among commands the notifier's.\<close>

definition run_by :: "'w state \<Rightarrow> 'w state \<Rightarrow> Cmd list" where
  "run_by s s' = drop (length (spawned s)) (spawned s')"

definition notifier_calls :: "Cmd list \<Rightarrow> Cmd list" where
  "notifier_calls cs = filter (\<lambda>c. Path c = ''./git_multimail_wrapper.py'') cs"

text \<open>The formats a configuration may name: none, \<^verbatim>\<open>html\<close> or \<^verbatim>\<open>text\<close>.\<close>

definition valid_format :: "string \<Rightarrow> bool" where
  "valid_format f = (f = '''' \<or> f = ''html'' \<or> f = ''text'')"

text \<open>The \<^verbatim>\<open>--stdout\<close> flag, passed exactly when the SMTP credential is empty.\<close>

definition stdout_flag :: "string \<Rightarrow> string list" where
  "stdout_flag password = (if password = '''' then [''--stdout''] else [])"

text \<open>The entry of the environment that carries the SMTP credential.\<close>

definition smtpPass_entry :: "string \<Rightarrow> string" where
  "smtpPass_entry password =
     ''GIT_CONFIG_PARAMETERS='' @ [CHR 0x27] @ ''multimailhook.smtpPass='' @ password @ [CHR 0x27]"

text \<open>
  A \<^verbatim>\<open>POST\<close> request for the earlier snapshot whose signature header is the HMAC-SHA256,
  under \<open>secret\<close>, of the bytes \<open>msg\<close>, written as GitHub writes it.
\<close>

definition signed_request :: "string \<Rightarrow> string \<Rightarrow> string \<Rightarrow> string \<Rightarrow> Request" where
  "signed_request secret eventType msg body =
     \<lparr>Method = ''POST'',
      Header = [''X-Hub-Signature-256'' \<mapsto>
                  ''sha256='' @ hex_EncodeToString (hmac_SHA256 secret msg),
                ''X-GitHub-Event'' \<mapsto> eventType],
      Body = body\<rparr>"

text \<open>A body of one byte more than the limit of 1048576 bytes.\<close>

definition big_body :: string where
  "big_body = replicate 1048577 (CHR ''a'')"

text \<open>
  A repository name none of whose elements, between slashes, is empty, \<^verbatim>\<open>.\<close> or \<^verbatim>\<open>..\<close>
  (as the names \<^verbatim>\<open>owner/repo\<close> that GitHub gives are).
\<close>

definition clean_name :: "string \<Rightarrow> bool" where
  "clean_name n = list_all (\<lambda>e. e \<noteq> '''' \<and> e \<noteq> ''.'' \<and> e \<noteq> ''..'') (split_slash n)"

chapter \<open>Properties\<close>

section \<open>What the handlers run\<close>

lemma run_by_self [simp]: "run_by s s = []"
  by (simp add: run_by_def)

lemma spawned_log_append [simp]: "spawned (log_append rs s) = spawned s"
  by (simp add: log_append_def)

lemma world_log_append [simp]: "world (log_append rs s) = world s"
  by (simp add: log_append_def)

lemma run_by_log_append [simp]: "run_by s (log_append rs s') = run_by s s'"
  by (simp add: run_by_def)

lemma run_by_world [simp]: "run_by s (s'\<lparr>world := w\<rparr>) = run_by s s'"
  by (simp add: run_by_def)

lemma run_by_printed [simp]: "run_by s (s'\<lparr>printed := w\<rparr>) = run_by s s'"
  by (simp add: run_by_def)

lemma run_by_append: "spawned s' = spawned s @ cs \<Longrightarrow> run_by s s' = cs"
  by (simp add: run_by_def)

lemma Output_spawned:
  "Output ext c s = (r, s') \<Longrightarrow> spawned s' = spawned s @ [c]"
  by (auto simp: Output_def split: prod.splits)

lemma Output_run_by:
  "Output ext c s1 = (r, s') \<Longrightarrow> spawned s1 = spawned s \<Longrightarrow> run_by s s' = [c]"
  by (auto simp: Output_def run_by_def split: prod.splits)

text \<open>What the push handler of the current snapshot runs: nothing, or the notifier once.\<close>

lemma push_new_run_by:
  fixes ext :: "('w, 'c) ext"
  shows "run_by s (snd (PushHandler_githubPushHandler ext Cfg h ev s)) =
     (case Option.bind (PushEvent.Installation ev) ID of
        None \<Rightarrow> []
      | Some installationID \<Rightarrow>
     (case ghinstallation_New ext (AppId Cfg) installationID (AppPrivateKey Cfg) of
        Inl err \<Rightarrow> []
      | Inr client \<Rightarrow>
     (case SyncRepo ext client (Repo ev) (world s) of
        (Inl err, w1) \<Rightarrow> []
      | (Inr gitDir, w1) \<Rightarrow>
     (case getConfig ext gitDir w1 of
        (Inl err, recs) \<Rightarrow> []
      | (Inr config, recs) \<Rightarrow>
     (case Option.bind (Option.bind (HeadCommit ev) Committer) CommitAuthor.Name of
        None \<Rightarrow> []
      | Some committer \<Rightarrow>
     (case Option.bind (Repo ev) HTMLURL of
        None \<Rightarrow> []
      | Some url \<Rightarrow>
     (case PushEvent.Before ev of
        None \<Rightarrow> []
      | Some before \<Rightarrow>
     (case PushEvent.After ev of
        None \<Rightarrow> []
      | Some after \<Rightarrow>
     (case PushEvent.Ref ev of
        None \<Rightarrow> []
      | Some ref \<Rightarrow>
         [notifier_Cmd (os_Environ ext)
                (notifier_args_from
                   (notifier_args (SmtpPassword Cfg) (MailingList config) (Email_Format config))
                   committer url)
                before after ref gitDir (SmtpPassword Cfg)])))))))))"
  unfolding PushHandler_githubPushHandler_def
  by (auto simp: Let_def Output_run_by split: option.split sum.split prod.split)

lemma notifier_args_flag:
  "notifier_args password mailing format =
     stdout_flag password @ [''-c'', ''multimailhook.mailingList='' @ mailing]
       @ (if format \<noteq> '''' then [''-c'', ''multimailhook.commitEmailFormat='' @ format] else [])"
  by (simp add: notifier_args_def stdout_flag_def Let_def)

lemma notifier_Cmd_fields:
  "Path (notifier_Cmd environ args b a r gitDir password) = ''./git_multimail_wrapper.py''"
  "Args (notifier_Cmd environ args b a r gitDir password) = ''./git_multimail_wrapper.py'' # args"
  "Stdin (notifier_Cmd environ args b a r gitDir password) = b @ '' '' @ a @ '' '' @ r"
  "Env (notifier_Cmd environ args b a r gitDir password) =
     (environ @ [''GIT_DIR='' @ gitDir, ''GIT_CONFIG_GLOBAL=git-multimail.config''])
       @ [smtpPass_entry password]"
  by (simp_all add: notifier_Cmd_def exec_Command_def smtpPass_entry_def)

lemma runGitCmd_spawned:
  "runGitCmd ext gitDir args s = (r, s') \<Longrightarrow>
     spawned s' = spawned s @ [(exec_Command ''git'' args)\<lparr>Env := os_Environ ext @ [''GIT_DIR='' @ gitDir]\<rparr>]"
  by (auto simp: runGitCmd_def Let_def Output_def split: prod.splits sum.splits error.splits)

lemma gitClone_spawned:
  "gitClone ext url dest s = (r, s') \<Longrightarrow> \<exists>c. spawned s' = spawned s @ [c] \<and> Path c = ''git''"
  by (auto simp: gitClone_def exec_Command_def split: prod.splits sum.splits dest!: runGitCmd_spawned)

lemma gitFetch_spawned:
  "gitFetch ext gitDir s = (r, s') \<Longrightarrow> \<exists>c. spawned s' = spawned s @ [c] \<and> Path c = ''git''"
  by (auto simp: gitFetch_def exec_Command_def split: prod.splits sum.splits dest!: runGitCmd_spawned)

lemma syncRepo_spawned:
  "syncRepo ext gitDir url s = (r, s') \<Longrightarrow>
     \<exists>cs. spawned s' = spawned s @ cs \<and> (\<forall>c \<in> set cs. Path c = ''git'')"
  by (fastforce simp: syncRepo_def split: stat_result.splits prod.splits option.splits if_splits
       dest!: gitClone_spawned gitFetch_spawned)

lemma getConfig_json_spawned:
  "getConfig_json ext gitRepo s = (r, s') \<Longrightarrow> \<exists>c. spawned s' = spawned s @ [c] \<and> Path c = ''git''"
  by (auto simp: getConfig_json_def exec_Command_def split: prod.splits sum.splits if_splits
       dest!: runGitCmd_spawned)


lemma notifier_calls_git:
  "\<forall>c \<in> set cs. Path c = ''git'' \<Longrightarrow> notifier_calls cs = []"
  by (induction cs) (auto simp: notifier_calls_def)

lemma notifier_calls_Nil [simp]: "notifier_calls [] = []"
  by (simp add: notifier_calls_def)

lemma notifier_calls_append [simp]:
  "notifier_calls (xs @ ys) = notifier_calls xs @ notifier_calls ys"
  by (simp add: notifier_calls_def)

lemma notifier_calls_Cmd [simp]:
  "notifier_calls [notifier_Cmd environ args b a r d p] = [notifier_Cmd environ args b a r d p]"
  by (simp add: notifier_calls_def notifier_Cmd_fields)

lemma notifier_calls_one_git:
  "Path c = ''git'' \<Longrightarrow> notifier_calls (c # cs) = notifier_calls cs"
  by (simp add: notifier_calls_def)

text \<open>What the push handler of the earlier snapshot runs besides git: the notifier, at most once.\<close>

lemma push_old_notifier_calls:
  fixes ext :: "('w, 'c) ext"
  shows "notifier_calls (run_by s (snd (githubPushHandler ext g ev s))) =
     (case Generic ev of
        None \<Rightarrow> []
      | Some generic \<Rightarrow>
     (let gitDir = filepath_Join [persistPath g, ''repos'', ''github.com'',
                                  GithubRepo.FullName (Repository generic)]
      in
     (case syncRepo ext gitDir (CloneUrl (Repository generic)) s of
        (Some err, s1) \<Rightarrow> []
      | (None, s1) \<Rightarrow>
     (case getConfig_json ext gitDir
             (log_append [Printf (''git_multimail_wrapper.py '' @ Before ev @ '' '' @ After ev
                                   @ '' '' @ Ref ev)] s1) of
        (Inl err, s3) \<Rightarrow> []
      | (Inr config, s3) \<Rightarrow>
          [notifier_Cmd (os_Environ ext)
                (notifier_args (smtpPassword g) (mailingList config) (emailFormat config))
                (Before ev) (After ev) (Ref ev) gitDir (smtpPassword g)]))))"
proof (cases "Generic ev")
  case None
  then show ?thesis by (simp add: githubPushHandler_def)
next
  case (Some generic)
  define gitDir where "gitDir = filepath_Join [persistPath g, ''repos'', ''github.com'',
                                  GithubRepo.FullName (Repository generic)]"
  obtain r1 s1 where sync: "syncRepo ext gitDir (CloneUrl (Repository generic)) s = (r1, s1)"
    by (cases "syncRepo ext gitDir (CloneUrl (Repository generic)) s") auto
  from syncRepo_spawned [OF sync] obtain cs1 where
    cs1: "spawned s1 = spawned s @ cs1" "\<forall>c \<in> set cs1. Path c = ''git''" by blast
  note sync' = sync [unfolded gitDir_def]
  show ?thesis
  proof (cases r1)
    case (Some err)
    with \<open>Generic ev = Some generic\<close> sync' cs1 show ?thesis
      by (simp add: githubPushHandler_def Let_def run_by_append notifier_calls_git)
  next
    case None
    define s2 where "s2 = log_append [Printf (''git_multimail_wrapper.py '' @ Before ev @ '' ''
                             @ After ev @ '' '' @ Ref ev)] s1"
    obtain r3 s3 where conf: "getConfig_json ext gitDir s2 = (r3, s3)"
      by (cases "getConfig_json ext gitDir s2") auto
    from getConfig_json_spawned [OF conf] obtain c3 where
      c3: "spawned s3 = spawned s2 @ [c3]" "Path c3 = ''git''" by blast
    have sp3: "spawned s3 = spawned s @ (cs1 @ [c3])"
      using c3 cs1 by (simp add: s2_def)
    note conf' = conf [unfolded gitDir_def s2_def]
    show ?thesis
    proof (cases r3)
      case (Inl err)
      with \<open>Generic ev = Some generic\<close> sync' None conf' cs1 c3 show ?thesis
        by (simp add: githubPushHandler_def Let_def
              run_by_append [OF sp3] notifier_calls_git notifier_calls_one_git)
    next
      case (Inr config)
      define cmd where "cmd = notifier_Cmd (os_Environ ext)
                (notifier_args (smtpPassword g) (mailingList config) (emailFormat config))
                (Before ev) (After ev) (Ref ev) gitDir (smtpPassword g)"
      obtain r4 s4 where out: "Output ext cmd s3 = (r4, s4)"
        by (cases "Output ext cmd s3") auto
      have sp4: "spawned s4 = spawned s @ (cs1 @ [c3] @ [cmd])"
        using Output_spawned [OF out] sp3 by simp
      note out' = out [unfolded cmd_def gitDir_def]
      have "snd (githubPushHandler ext g ev s) = s4"
        using \<open>Generic ev = Some generic\<close> sync' None conf' Inr out'
        by (simp add: githubPushHandler_def Let_def split: sum.splits)
      then show ?thesis
        using \<open>Generic ev = Some generic\<close> sync' None conf' Inr cs1 c3
        by (simp add: cmd_def gitDir_def Let_def
              run_by_append [OF sp4] notifier_calls_git notifier_calls_one_git)
    qed
  qed
qed

section \<open>The concrete environment, run\<close>

lemma demo_ext_fields [simp]:
  "ValidatePayload (demo_ext f t j) = (\<lambda>req secret.
        if Header req ''X-Hub-Signature-256'' = Some (''sha256='' @ secret)
        then Inr (Body req) else Inl (ErrorString ''payload signature check failed''))"
  "ParseWebHook (demo_ext f t j) = (\<lambda>t payload.
        if t = ''ping'' then Inr PingEvent
        else if t = ''push''
        then Inr (PushEvent (if payload = ''short''
                             then demo_push\<lparr>PushEvent.Before := Some ''abc''\<rparr>
                             else demo_push))
        else Inr OtherEvent)"
  "json_Unmarshal_push (demo_ext f t j) = (\<lambda>payload.
        if payload = [] then Inl (ErrorString ''unexpected end of JSON input'')
        else Inr (if payload = ''short'' then demo_push_old\<lparr>Before := ''abc''\<rparr>
                  else demo_push_old))"
  "json_Unmarshal_generic (demo_ext f t j) = (\<lambda>payload.
        if payload = [] then Inl (ErrorString ''unexpected end of JSON input'')
        else Inr demo_generic)"
  "ghinstallation_New (demo_ext f t j) = (\<lambda>app inst key. Inr ())"
  "SyncRepo (demo_ext f t j) = (\<lambda>client r w. (Inr ''persist/repos/github.com/o/r'', w))"
  "GitShow (demo_ext f t j) = (\<lambda>dir rev path w. f)"
  "toml_Decode (demo_ext f t j) = (\<lambda>src. t)"
  "db_AddPush (demo_ext f t j) = (\<lambda>e w. w)"
  "os_Environ (demo_ext f t j) = [''PATH=/usr/bin'']"
  "os_Stat (demo_ext f t j) = (\<lambda>p w. if p \<in> set w then StatInfo True else StatNotExist)"
  "cmd_Output (demo_ext f t j) = demo_Output f"
  "json_Decode (demo_ext f t j) = (\<lambda>src. j)"
  "strconv_Quote (demo_ext f t j) = (\<lambda>x. [CHR 0x22] @ x @ [CHR 0x22])"
  "Sscanf_sha256_x (demo_ext f t j) = fmt_Sscanf_sha256_x"
  "hmac_sha256 (demo_ext f t j) = hmac_SHA256"
  by (simp_all add: demo_ext_def)

lemma demo_json_Decode_strict [simp]:
  "json_Decode_strict (demo_ext f t (Inr (c, []))) src = Inr c"
  by (simp add: json_Decode_strict_def)

lemma demo_gitDir:
  "filepath_Join [''persist'', ''repos'', ''github.com'', ''o/r''] = ''persist/repos/github.com/o/r''"
  by (simp add: filepath_Join_def filepath_Clean_def clean_step_def Let_def)

lemma demo_sync:
  "syncRepo (demo_ext file toml json) ''persist/repos/github.com/o/r'' ''https://github.com/o/r.git'' demo_state
   = (None, \<lparr>world = [''persist/repos/github.com/o/r''],
        spawned = [(exec_Command ''git'' [''clone'', ''--bare'', ''--quiet'', ''https://github.com/o/r.git'', ''persist/repos/github.com/o/r''])
                     \<lparr>Env := [''PATH=/usr/bin'', ''GIT_DIR=persist/repos/github.com/o/r'']\<rparr>,
                   (exec_Command ''git'' [''fetch'', ''--quiet'', ''--force'', ''origin'', ''*:*''])
                     \<lparr>Env := [''PATH=/usr/bin'', ''GIT_DIR=persist/repos/github.com/o/r'']\<rparr>],
        logged = [Printf ''Cloned https://github.com/o/r.git to persist/repos/github.com/o/r''],
        printed = []\<rparr>)"
  by (simp add: syncRepo_def gitClone_def gitFetch_def runGitCmd_def Output_def demo_ext_def
        demo_Output_def demo_state_def exec_Command_def log_append_def Let_def)

lemma demo_push_old_run:
  "notifier_calls (run_by demo_state (snd (githubPushHandler (demo_ext (Inr ''x'') toml (Inr (demo_config_json, [])))
       demo_Globals demo_push_old demo_state)))
   = [notifier_Cmd [''PATH=/usr/bin''] (notifier_args ''hunter2'' ''dev@example.org'' ''html'')
        ''aaaaaaaaaaaaaaaaaaaaaaaaaaaaaaaaaaaaaaaa'' ''bbbbbbbbbbbbbbbbbbbbbbbbbbbbbbbbbbbbbbbb''
        ''refs/heads/main'' ''persist/repos/github.com/o/r'' ''hunter2'']"
proof -
  have conf: "getConfig_json (demo_ext (Inr ''x'') toml (Inr (demo_config_json, []))) d s
       = (Inr demo_config_json, s\<lparr>spawned := spawned s @
            [(exec_Command ''git'' [''show'', ''HEAD:.github/commit-emails.json''])
               \<lparr>Env := [''PATH=/usr/bin'', ''GIT_DIR='' @ d]\<rparr>]\<rparr>)" for d and s :: "string list state"
    by (simp add: getConfig_json_def json_Decode_strict_def runGitCmd_def Output_def demo_ext_def
          demo_Output_def exec_Command_def demo_config_json_def Let_def)
  have ev: "Generic demo_push_old = Some \<lparr>Repository = \<lparr>FullName = ''o/r'',
                                        CloneUrl = ''https://github.com/o/r.git'',
                                        Private = False\<rparr>,
                         Sender = \<lparr>Login = ''ada''\<rparr>\<rparr>"
     "Before demo_push_old = ''aaaaaaaaaaaaaaaaaaaaaaaaaaaaaaaaaaaaaaaa''"
     "After demo_push_old = ''bbbbbbbbbbbbbbbbbbbbbbbbbbbbbbbbbbbbbbbb''"
     "Ref demo_push_old = ''refs/heads/main''"
    by (simp_all add: demo_push_old_def demo_generic_def)
  have g: "persistPath demo_Globals = ''persist''" "smtpPassword demo_Globals = ''hunter2''"
    by (simp_all add: demo_Globals_def)
  have env: "os_Environ (demo_ext (Inr ''x'') toml (Inr (demo_config_json, []))) = [''PATH=/usr/bin'']"
    by (simp add: demo_ext_def)
  show ?thesis
    unfolding push_old_notifier_calls ev g
    by (simp add: demo_gitDir demo_sync conf env Let_def) (simp add: demo_config_json_def)
qed

lemma demo_push_new_run:
  "PushHandler_githubPushHandler (demo_ext (Inr ''x'') (Inr (demo_config, [])) json) demo_Cfg h demo_push demo_state
   = (Return None,
      \<lparr>world = [],
       spawned = [notifier_Cmd [''PATH=/usr/bin'']
          (notifier_args_from (notifier_args ''hunter2'' ''dev@example.org'' ''html'') ''Ada'' ''https://github.com/o/r'')
          ''aaaaaaaaaaaaaaaaaaaaaaaaaaaaaaaaaaaaaaaa'' ''bbbbbbbbbbbbbbbbbbbbbbbbbbbbbbbbbbbbbbbb''
          ''refs/heads/main'' ''persist/repos/github.com/o/r'' ''hunter2''],
       logged = [], printed = [''sent'']\<rparr>)"
  by (simp add: PushHandler_githubPushHandler_def demo_ext_def demo_push_def demo_Cfg_def
        demo_state_def demo_config_def getConfig_def parseConfig_def Output_def demo_Output_def
        log_append_def notifier_Cmd_fields)

section \<open>Errors of configuration resolution in the pipeline\<close>

lemma log_append_Nil [simp]: "log_append [] s = s"
  by (simp add: log_append_def)

lemma push_new_config_error:
  fixes ext :: "('w, 'c) ext"
  assumes "Option.bind (PushEvent.Installation ev) ID = Some iid"
    and "ghinstallation_New ext (AppId Cfg) iid (AppPrivateKey Cfg) = Inr client"
    and "SyncRepo ext client (Repo ev) (world s) = (Inr gitDir, w1)"
    and "getConfig ext gitDir w1 = (Inl err, recs)"
  shows "PushHandler_githubPushHandler ext Cfg h ev s =
           (Return (Some (ErrorString (''could not get config for '' @ repo h @ '': '' @ Error err))),
            log_append recs (s\<lparr>world := w1\<rparr>))"
  using assms by (simp add: PushHandler_githubPushHandler_def)


lemma parseConfig_invalid:
  fixes ext :: "('w, 'c) ext"
  assumes "toml_Decode ext src = Inr (config, und)" and "\<not> valid_format (Email_Format config)"
  shows "fst (parseConfig ext src) =
     Inl (ErrorString (''invalid email.format (should be html or text): '' @ Email_Format config))"
  using assms by (simp add: parseConfig_def valid_format_def Let_def)

lemma getConfig_json_invalid:
  fixes ext :: "('w, 'c) ext"
  assumes "fst (runGitCmd ext gitDir [''show'', ''HEAD:.github/commit-emails.json''] s) = Inr src"
    and "json_Decode_strict ext src = Inr config" and "\<not> valid_format (emailFormat config)"
  shows "fst (getConfig_json ext gitDir s) =
     Inl (ErrorString (''invalid emailFormat (should be html or text): ''
                         @ strconv_Quote ext (emailFormat config)))"
  using assms by (auto simp: getConfig_json_def valid_format_def split: prod.splits sum.splits)

lemma push_old_config_error:
  fixes ext :: "('w, 'c) ext"
  assumes "Generic ev = Some generic"
    and "syncRepo ext (filepath_Join [persistPath g, ''repos'', ''github.com'',
                         GithubRepo.FullName (Repository generic)])
           (CloneUrl (Repository generic)) s = (None, s1)"
    and "fst (getConfig_json ext (filepath_Join [persistPath g, ''repos'', ''github.com'',
                         GithubRepo.FullName (Repository generic)])
           (log_append [Printf (''git_multimail_wrapper.py '' @ Before ev @ '' '' @ After ev
                                   @ '' '' @ Ref ev)] s1)) = Inl err"
  shows "fst (githubPushHandler ext g ev s) =
           Return (Some (ErrorString (''no commit-emails.json found for ''
              @ GithubRepo.FullName (Repository generic) @ '': '' @ Error err)))
         \<and> notifier_calls (run_by s (snd (githubPushHandler ext g ev s))) = []"
proof
  from assms show "fst (githubPushHandler ext g ev s) =
           Return (Some (ErrorString (''no commit-emails.json found for ''
              @ GithubRepo.FullName (Repository generic) @ '': '' @ Error err)))"
    by (auto simp: Let_def githubPushHandler_def split: prod.splits)
  from assms show "notifier_calls (run_by s (snd (githubPushHandler ext g ev s))) = []"
    by (auto simp: push_old_notifier_calls Let_def split: prod.splits)
qed

section \<open>The claims\<close>

text \<open>
  Claim C3. The SMTP credential reaches the notifier in its environment only. Take any
  two runs of the push pipeline that differ in the credential alone (\<open>p\<close> and \<open>p'\<close>).
  Either neither starts the notifier, or each starts it exactly once, and then: the
  argument lists are the program name, \<^verbatim>\<open>--stdout\<close> exactly when the run's own credential
  is empty, and a rest that is the same in both runs; the standard input is the same;
  and the environments are a common list followed by one entry,
  \<^verbatim>\<open>GIT_CONFIG_PARAMETERS='multimailhook.smtpPass=...'\<close>, that holds the run's own
  credential. So no element of the argument list is computed from the credential, and
  the argument list depends on it only through the presence of \<^verbatim>\<open>--stdout\<close>. Stated
  for the push handler of the current snapshot and for the one of the earlier snapshot
  (where the pipeline also runs git, so the notifier's calls are selected).
\<close>

theorem C3_credential_only_in_environment:
  fixes ext :: "('w, 'c) ext"
  shows "(let cs = run_by s (snd (PushHandler_githubPushHandler ext (Cfg\<lparr>SmtpPassword := p\<rparr>) h ev s));
              cs' = run_by s (snd (PushHandler_githubPushHandler ext (Cfg\<lparr>SmtpPassword := p'\<rparr>) h ev s))
          in (cs = [] \<and> cs' = []) \<or>
             (\<exists>c c' rest base. cs = [c] \<and> cs' = [c'] \<and>
                Args c = ''./git_multimail_wrapper.py'' # stdout_flag p @ rest \<and>
                Args c' = ''./git_multimail_wrapper.py'' # stdout_flag p' @ rest \<and>
                Stdin c = Stdin c' \<and>
                Env c = base @ [smtpPass_entry p] \<and>
                Env c' = base @ [smtpPass_entry p']))
       \<and> (let cs = notifier_calls (run_by s (snd (githubPushHandler ext (g\<lparr>smtpPassword := p\<rparr>) ev' s)));
              cs' = notifier_calls (run_by s (snd (githubPushHandler ext (g\<lparr>smtpPassword := p'\<rparr>) ev' s)))
          in (cs = [] \<and> cs' = []) \<or>
             (\<exists>c c' rest base. cs = [c] \<and> cs' = [c'] \<and>
                Args c = ''./git_multimail_wrapper.py'' # stdout_flag p @ rest \<and>
                Args c' = ''./git_multimail_wrapper.py'' # stdout_flag p' @ rest \<and>
                Stdin c = Stdin c' \<and>
                Env c = base @ [smtpPass_entry p] \<and>
                Env c' = base @ [smtpPass_entry p']))"
proof (rule conjI)
  show "let cs = run_by s (snd (PushHandler_githubPushHandler ext (Cfg\<lparr>SmtpPassword := p\<rparr>) h ev s));
              cs' = run_by s (snd (PushHandler_githubPushHandler ext (Cfg\<lparr>SmtpPassword := p'\<rparr>) h ev s))
          in (cs = [] \<and> cs' = []) \<or>
             (\<exists>c c' rest base. cs = [c] \<and> cs' = [c'] \<and>
                Args c = ''./git_multimail_wrapper.py'' # stdout_flag p @ rest \<and>
                Args c' = ''./git_multimail_wrapper.py'' # stdout_flag p' @ rest \<and>
                Stdin c = Stdin c' \<and>
                Env c = base @ [smtpPass_entry p] \<and>
                Env c' = base @ [smtpPass_entry p'])"
    by (auto simp: push_new_run_by notifier_Cmd_fields notifier_args_flag notifier_args_from_def
         split: option.splits sum.splits prod.splits)
next
  show "let cs = notifier_calls (run_by s (snd (githubPushHandler ext (g\<lparr>smtpPassword := p\<rparr>) ev' s)));
              cs' = notifier_calls (run_by s (snd (githubPushHandler ext (g\<lparr>smtpPassword := p'\<rparr>) ev' s)))
          in (cs = [] \<and> cs' = []) \<or>
             (\<exists>c c' rest base. cs = [c] \<and> cs' = [c'] \<and>
                Args c = ''./git_multimail_wrapper.py'' # stdout_flag p @ rest \<and>
                Args c' = ''./git_multimail_wrapper.py'' # stdout_flag p' @ rest \<and>
                Stdin c = Stdin c' \<and>
                Env c = base @ [smtpPass_entry p] \<and>
                Env c' = base @ [smtpPass_entry p'])"
    by (auto simp: push_old_notifier_calls notifier_Cmd_fields notifier_args_flag Let_def
         split: option.splits sum.splits prod.splits)
qed

text \<open>
  The two disjuncts of C3 are not empty: on the concrete environment the notifier is
  started, with the arguments and the environment below.
\<close>

theorem C3_witness:
  "map Args (run_by demo_state (snd (PushHandler_githubPushHandler
       (demo_ext (Inr ''x'') (Inr (demo_config, [])) (Inr (demo_config_json, [])))
       (demo_Cfg\<lparr>SmtpPassword := ''hunter2''\<rparr>) \<lparr>installation = 7, repo = ''o/r''\<rparr> demo_push demo_state)))
     = [[''./git_multimail_wrapper.py'',
         ''-c'', ''multimailhook.mailingList=dev@example.org'',
         ''-c'', ''multimailhook.commitEmailFormat=html'',
         ''-c'', ''multimailhook.from=Ada <notifications@commit-emails.xyz>'',
         ''-c'', ''multimailhook.commitBrowseURL=https://github.com/o/r/commit/%(id)s'']]
   \<and> map Args (run_by demo_state (snd (PushHandler_githubPushHandler
       (demo_ext (Inr ''x'') (Inr (demo_config, [])) (Inr (demo_config_json, [])))
       (demo_Cfg\<lparr>SmtpPassword := ''''\<rparr>) \<lparr>installation = 7, repo = ''o/r''\<rparr> demo_push demo_state)))
     = [[''./git_multimail_wrapper.py'', ''--stdout'',
         ''-c'', ''multimailhook.mailingList=dev@example.org'',
         ''-c'', ''multimailhook.commitEmailFormat=html'',
         ''-c'', ''multimailhook.from=Ada <notifications@commit-emails.xyz>'',
         ''-c'', ''multimailhook.commitBrowseURL=https://github.com/o/r/commit/%(id)s'']]
   \<and> map Env (run_by demo_state (snd (PushHandler_githubPushHandler
       (demo_ext (Inr ''x'') (Inr (demo_config, [])) (Inr (demo_config_json, [])))
       (demo_Cfg\<lparr>SmtpPassword := ''hunter2''\<rparr>) \<lparr>installation = 7, repo = ''o/r''\<rparr> demo_push demo_state)))
     = [[''PATH=/usr/bin'', ''GIT_DIR=persist/repos/github.com/o/r'',
         ''GIT_CONFIG_GLOBAL=git-multimail.config'',
         ''GIT_CONFIG_PARAMETERS='' @ [CHR 0x27] @ ''multimailhook.smtpPass=hunter2'' @ [CHR 0x27]]]"
  using C3_credential_only_in_environment [where s = demo_state
       and ext = "demo_ext (Inr ''x'') (Inr (demo_config, [])) (Inr (demo_config_json, []))"
       and Cfg = demo_Cfg and p = "''hunter2''" and h = "\<lparr>installation = 7, repo = ''o/r''\<rparr>"
       and ev = demo_push and p' = "''''"]
  by (simp add: push_new_run_by demo_push_def demo_Cfg_def demo_state_def demo_config_def
        getConfig_def parseConfig_def notifier_Cmd_fields notifier_args_flag notifier_args_from_def
        stdout_flag_def smtpPass_entry_def)

text \<open>
  Claim C4. A configuration whose format is none of the empty string, \<^verbatim>\<open>html\<close> and
  \<^verbatim>\<open>text\<close> (such as \<^verbatim>\<open>pdf\<close>) is a configuration error, and the pipeline stops before
  it starts the notifier. For \<^verbatim>\<open>parseConfig\<close> of \<^verbatim>\<open>config.go\<close>: a decoded file with such a
  format gives the error \<^verbatim>\<open>invalid email.format\<close>; a push whose mirror holds such a file
  makes \<^verbatim>\<open>PushHandler.githubPushHandler\<close> return that error, wrapped, having run no
  subprocess. For the earlier snapshot: \<^verbatim>\<open>getConfig\<close> gives the error
  \<^verbatim>\<open>invalid emailFormat\<close>, and whenever its \<^verbatim>\<open>getConfig\<close> fails, \<^verbatim>\<open>githubPushHandler\<close>
  returns the error and has not called the notifier.
\<close>

theorem C4_invalid_format_rejected:
  fixes ext :: "('w, 'c) ext"
  assumes "\<not> valid_format fmt"
  shows
  "(toml_Decode ext src = Inr (config, und) \<and> Email_Format config = fmt \<longrightarrow>
      fst (parseConfig ext src) =
        Inl (ErrorString (''invalid email.format (should be html or text): '' @ fmt)))
   \<and> (Option.bind (PushEvent.Installation ev) ID = Some iid \<and>
      ghinstallation_New ext (AppId Cfg) iid (AppPrivateKey Cfg) = Inr client \<and>
      SyncRepo ext client (Repo ev) (world s) = (Inr gitDir, w1) \<and>
      GitShow ext gitDir ''HEAD'' ''.github/commit-emails.toml'' w1 = Inr src \<and>
      toml_Decode ext src = Inr (config, und) \<and> Email_Format config = fmt \<longrightarrow>
        fst (PushHandler_githubPushHandler ext Cfg h ev s) =
          Return (Some (ErrorString (''could not get config for '' @ repo h @
             '': invalid email.format (should be html or text): '' @ fmt)))
        \<and> run_by s (snd (PushHandler_githubPushHandler ext Cfg h ev s)) = [])
   \<and> (fst (runGitCmd ext gitDir' [''show'', ''HEAD:.github/commit-emails.json''] s') = Inr src' \<and>
      json_Decode_strict ext src' = Inr config' \<and> emailFormat config' = fmt \<longrightarrow>
        fst (getConfig_json ext gitDir' s') =
          Inl (ErrorString (''invalid emailFormat (should be html or text): ''
                              @ strconv_Quote ext fmt)))
   \<and> (Generic ev' = Some generic \<and>
      syncRepo ext (filepath_Join [persistPath g, ''repos'', ''github.com'',
                         GithubRepo.FullName (Repository generic)])
           (CloneUrl (Repository generic)) s'' = (None, s1) \<and>
      fst (getConfig_json ext (filepath_Join [persistPath g, ''repos'', ''github.com'',
                         GithubRepo.FullName (Repository generic)])
           (log_append [Printf (''git_multimail_wrapper.py '' @ Before ev' @ '' '' @ After ev'
                                   @ '' '' @ Ref ev')] s1)) = Inl err \<longrightarrow>
        fst (githubPushHandler ext g ev' s'') =
           Return (Some (ErrorString (''no commit-emails.json found for ''
              @ GithubRepo.FullName (Repository generic) @ '': '' @ Error err)))
        \<and> notifier_calls (run_by s'' (snd (githubPushHandler ext g ev' s''))) = [])"
proof (intro conjI impI)
  assume "toml_Decode ext src = Inr (config, und) \<and> Email_Format config = fmt"
  with assms show "fst (parseConfig ext src) =
        Inl (ErrorString (''invalid email.format (should be html or text): '' @ fmt))"
    using parseConfig_invalid [of ext src config und] by simp
next
  assume h: "Option.bind (PushEvent.Installation ev) ID = Some iid \<and>
      ghinstallation_New ext (AppId Cfg) iid (AppPrivateKey Cfg) = Inr client \<and>
      SyncRepo ext client (Repo ev) (world s) = (Inr gitDir, w1) \<and>
      GitShow ext gitDir ''HEAD'' ''.github/commit-emails.toml'' w1 = Inr src \<and>
      toml_Decode ext src = Inr (config, und) \<and> Email_Format config = fmt"
  then have "fst (getConfig ext gitDir w1) =
      Inl (ErrorString (''invalid email.format (should be html or text): '' @ fmt))"
    using assms parseConfig_invalid [of ext src config und] by (simp add: getConfig_def)
  then obtain recs where "getConfig ext gitDir w1 =
      (Inl (ErrorString (''invalid email.format (should be html or text): '' @ fmt)), recs)"
    by (cases "getConfig ext gitDir w1") auto
  with h have run: "PushHandler_githubPushHandler ext Cfg h ev s =
       (Return (Some (ErrorString (''could not get config for '' @ repo h @ '': '' @
          Error (ErrorString (''invalid email.format (should be html or text): '' @ fmt))))),
        log_append recs (s\<lparr>world := w1\<rparr>))"
    using push_new_config_error [of ev iid ext Cfg client s gitDir w1 _ recs h] by blast
  show "fst (PushHandler_githubPushHandler ext Cfg h ev s) =
          Return (Some (ErrorString (''could not get config for '' @ repo h @
             '': invalid email.format (should be html or text): '' @ fmt)))"
    by (simp add: run)
  show "run_by s (snd (PushHandler_githubPushHandler ext Cfg h ev s)) = []"
    by (simp add: run)
next
  assume "fst (runGitCmd ext gitDir' [''show'', ''HEAD:.github/commit-emails.json''] s') = Inr src' \<and>
      json_Decode_strict ext src' = Inr config' \<and> emailFormat config' = fmt"
  with assms show "fst (getConfig_json ext gitDir' s') =
          Inl (ErrorString (''invalid emailFormat (should be html or text): ''
                              @ strconv_Quote ext fmt))"
    using getConfig_json_invalid [of ext gitDir' s' src' config'] by simp
next
  assume h: "Generic ev' = Some generic \<and>
      syncRepo ext (filepath_Join [persistPath g, ''repos'', ''github.com'',
                         GithubRepo.FullName (Repository generic)])
           (CloneUrl (Repository generic)) s'' = (None, s1) \<and>
      fst (getConfig_json ext (filepath_Join [persistPath g, ''repos'', ''github.com'',
                         GithubRepo.FullName (Repository generic)])
           (log_append [Printf (''git_multimail_wrapper.py '' @ Before ev' @ '' '' @ After ev'
                                   @ '' '' @ Ref ev')] s1)) = Inl err"
  from push_old_config_error [of ev' generic ext g s'' s1 err] h
  show "fst (githubPushHandler ext g ev' s'') =
           Return (Some (ErrorString (''no commit-emails.json found for ''
              @ GithubRepo.FullName (Repository generic) @ '': '' @ Error err)))"
    and "notifier_calls (run_by s'' (snd (githubPushHandler ext g ev' s''))) = []"
    by blast+
qed

text \<open>C4 at \<^verbatim>\<open>pdf\<close>, on the concrete environment, in both snapshots.\<close>

theorem C4_witness:
  "fst (parseConfig (demo_ext (Inr ''x'') (Inr (demo_config\<lparr>Email_Format := ''pdf''\<rparr>, []))
                       (Inr (demo_config_json\<lparr>emailFormat := ''pdf''\<rparr>, []))) ''x'')
     = Inl (ErrorString ''invalid email.format (should be html or text): pdf'')
   \<and> fst (PushHandler_githubPushHandler
            (demo_ext (Inr ''x'') (Inr (demo_config\<lparr>Email_Format := ''pdf''\<rparr>, []))
                       (Inr (demo_config_json\<lparr>emailFormat := ''pdf''\<rparr>, [])))
            demo_Cfg \<lparr>installation = 7, repo = ''o/r''\<rparr> demo_push demo_state)
     = Return (Some (ErrorString
         ''could not get config for o/r: invalid email.format (should be html or text): pdf''))
   \<and> run_by demo_state (snd (PushHandler_githubPushHandler
            (demo_ext (Inr ''x'') (Inr (demo_config\<lparr>Email_Format := ''pdf''\<rparr>, []))
                       (Inr (demo_config_json\<lparr>emailFormat := ''pdf''\<rparr>, [])))
            demo_Cfg \<lparr>installation = 7, repo = ''o/r''\<rparr> demo_push demo_state)) = []
   \<and> fst (githubPushHandler
            (demo_ext (Inr ''x'') (Inr (demo_config\<lparr>Email_Format := ''pdf''\<rparr>, []))
                       (Inr (demo_config_json\<lparr>emailFormat := ''pdf''\<rparr>, [])))
            demo_Globals demo_push_old demo_state)
     = Return (Some (ErrorString
         (''no commit-emails.json found for o/r: invalid emailFormat (should be html or text): ''
            @ [CHR 0x22] @ ''pdf'' @ [CHR 0x22])))
   \<and> notifier_calls (run_by demo_state (snd (githubPushHandler
            (demo_ext (Inr ''x'') (Inr (demo_config\<lparr>Email_Format := ''pdf''\<rparr>, []))
                       (Inr (demo_config_json\<lparr>emailFormat := ''pdf''\<rparr>, [])))
            demo_Globals demo_push_old demo_state))) = []"
proof -
  let ?ext = "demo_ext (Inr ''x'') (Inr (demo_config\<lparr>Email_Format := ''pdf''\<rparr>, []))
                       (Inr (demo_config_json\<lparr>emailFormat := ''pdf''\<rparr>, []))"
  let ?h = "\<lparr>installation = 7, repo = ''o/r''\<rparr>"
  let ?dir = "''persist/repos/github.com/o/r''"
  let ?generic = "\<lparr>Repository = \<lparr>FullName = ''o/r'', CloneUrl = ''https://github.com/o/r.git'',
                    Private = False\<rparr>, Sender = \<lparr>Login = ''ada''\<rparr>\<rparr>"
  let ?s1 = "snd (syncRepo ?ext ?dir ''https://github.com/o/r.git'' demo_state)"
  let ?s2 = "log_append [Printf (''git_multimail_wrapper.py '' @ Before demo_push_old @ '' ''
                @ After demo_push_old @ '' '' @ Ref demo_push_old)] ?s1"
  let ?err = "ErrorString (''invalid emailFormat (should be html or text): ''
                @ strconv_Quote ?ext ''pdf'')"
  have bad: "\<not> valid_format ''pdf''" by (simp add: valid_format_def)
  note claim = C4_invalid_format_rejected [OF bad, where ext = ?ext and src = "''x''"
      and config = "demo_config\<lparr>Email_Format := ''pdf''\<rparr>" and und = "[]"
      and ev = demo_push and iid = 7 and Cfg = demo_Cfg and client = "()" and s = demo_state
      and gitDir = ?dir and ?w1.0 = "[]" and h = ?h
      and gitDir' = ?dir and s' = ?s2 and src' = "''x''"
      and config' = "demo_config_json\<lparr>emailFormat := ''pdf''\<rparr>"
      and ev' = demo_push_old and generic = ?generic and g = demo_Globals and s'' = demo_state
      and ?s1.0 = ?s1 and err = ?err]
  have new: "toml_Decode ?ext ''x'' = Inr (demo_config\<lparr>Email_Format := ''pdf''\<rparr>, [])"
    "Email_Format (demo_config\<lparr>Email_Format := ''pdf''\<rparr>) = ''pdf''"
    "Option.bind (PushEvent.Installation demo_push) ID = Some 7"
    "ghinstallation_New ?ext (AppId demo_Cfg) 7 (AppPrivateKey demo_Cfg) = Inr ()"
    "SyncRepo ?ext () (Repo demo_push) (world demo_state) = (Inr ?dir, [])"
    "GitShow ?ext ?dir ''HEAD'' ''.github/commit-emails.toml'' [] = Inr ''x''"
    by (simp_all add: demo_push_def demo_state_def)
  have old: "Generic demo_push_old = Some ?generic"
    "persistPath demo_Globals = ''persist''"
    "syncRepo ?ext ?dir ''https://github.com/o/r.git'' demo_state = (None, ?s1)"
    "fst (runGitCmd ?ext ?dir [''show'', ''HEAD:.github/commit-emails.json''] ?s2) = Inr ''x''"
    "json_Decode_strict ?ext ''x'' = Inr (demo_config_json\<lparr>emailFormat := ''pdf''\<rparr>)"
    "emailFormat (demo_config_json\<lparr>emailFormat := ''pdf''\<rparr>) = ''pdf''"
    by (simp_all add: demo_push_old_def demo_generic_def demo_Globals_def demo_sync runGitCmd_def
          Output_def Let_def demo_Output_def exec_Command_def split: prod.splits)
  have quote: "strconv_Quote ?ext ''pdf'' = [CHR 0x22] @ ''pdf'' @ [CHR 0x22]"
    by simp
  from claim new have c12: "fst (parseConfig ?ext ''x'')
       = Inl (ErrorString (''invalid email.format (should be html or text): '' @ ''pdf''))
     \<and> fst (PushHandler_githubPushHandler ?ext demo_Cfg ?h demo_push demo_state)
       = Return (Some (ErrorString (''could not get config for '' @ repo ?h @
             '': invalid email.format (should be html or text): '' @ ''pdf'')))
     \<and> run_by demo_state (snd (PushHandler_githubPushHandler ?ext demo_Cfg ?h demo_push demo_state)) = []"
    by blast
  from claim old have c3: "fst (getConfig_json ?ext ?dir ?s2) = Inl ?err"
    by blast
  have c4: "fst (githubPushHandler ?ext demo_Globals demo_push_old demo_state) =
           Return (Some (ErrorString (''no commit-emails.json found for ''
              @ GithubRepo.FullName (Repository ?generic) @ '': '' @ Error ?err)))
        \<and> notifier_calls (run_by demo_state (snd (githubPushHandler ?ext demo_Globals demo_push_old demo_state))) = []"
    using claim old c3 by (simp add: demo_gitDir)
  show ?thesis
    using c12 c4 by (simp add: quote)
qed

text \<open>
  Claim C5. The notifier's standard input is the before-SHA, the after-SHA and the ref,
  separated by single spaces, with nothing after the ref. In the current snapshot the
  three are pointers: when all are set, every subprocess the push handler runs (it runs
  only the notifier) reads exactly that string, and when one is \<^verbatim>\<open>nil\<close> the handler
  panics before it runs anything. In the earlier snapshot every call of the notifier
  reads exactly that string.
\<close>

theorem C5_notifier_stdin:
  fixes ext :: "('w, 'c) ext"
  shows "(PushEvent.Before ev = Some b \<and> PushEvent.After ev = Some a \<and> PushEvent.Ref ev = Some r \<longrightarrow>
            (\<forall>c \<in> set (run_by s (snd (PushHandler_githubPushHandler ext Cfg h ev s))).
               Stdin c = b @ '' '' @ a @ '' '' @ r))
       \<and> (PushEvent.Before ev = None \<or> PushEvent.After ev = None \<or> PushEvent.Ref ev = None \<longrightarrow>
            run_by s (snd (PushHandler_githubPushHandler ext Cfg h ev s)) = [])
       \<and> (\<forall>c \<in> set (notifier_calls (run_by s (snd (githubPushHandler ext g ev' s)))).
            Stdin c = Before ev' @ '' '' @ After ev' @ '' '' @ Ref ev')"
proof (intro conjI impI)
  assume "PushEvent.Before ev = Some b \<and> PushEvent.After ev = Some a \<and> PushEvent.Ref ev = Some r"
  then show "\<forall>c \<in> set (run_by s (snd (PushHandler_githubPushHandler ext Cfg h ev s))).
               Stdin c = b @ '' '' @ a @ '' '' @ r"
    by (auto simp: push_new_run_by notifier_Cmd_fields split: option.splits sum.splits prod.splits)
next
  assume "PushEvent.Before ev = None \<or> PushEvent.After ev = None \<or> PushEvent.Ref ev = None"
  then show "run_by s (snd (PushHandler_githubPushHandler ext Cfg h ev s)) = []"
    by (auto simp: push_new_run_by split: option.splits sum.splits prod.splits)
next
  show "\<forall>c \<in> set (notifier_calls (run_by s (snd (githubPushHandler ext g ev' s)))).
            Stdin c = Before ev' @ '' '' @ After ev' @ '' '' @ Ref ev'"
    by (auto simp: push_old_notifier_calls notifier_Cmd_fields Let_def
          split: option.splits sum.splits prod.splits)
qed

text \<open>
  C5 on the spec's example: 40 times \<^verbatim>\<open>a\<close>, 40 times \<^verbatim>\<open>b\<close>, \<^verbatim>\<open>refs/heads/main\<close>; the
  notifier is called once in each snapshot.
\<close>

theorem C5_witness:
  "map Stdin (run_by demo_state
      (snd (PushHandler_githubPushHandler (demo_ext (Inr ''x'') (Inr (demo_config, [])) (Inr (demo_config_json, [])))
              demo_Cfg \<lparr>installation = 7, repo = ''o/r''\<rparr> demo_push demo_state)))
     = [''aaaaaaaaaaaaaaaaaaaaaaaaaaaaaaaaaaaaaaaa bbbbbbbbbbbbbbbbbbbbbbbbbbbbbbbbbbbbbbbb refs/heads/main'']
   \<and> map Stdin (notifier_calls (run_by demo_state
      (snd (githubPushHandler (demo_ext (Inr ''x'') (Inr (demo_config, [])) (Inr (demo_config_json, [])))
              demo_Globals demo_push_old demo_state))))
     = [''aaaaaaaaaaaaaaaaaaaaaaaaaaaaaaaaaaaaaaaa bbbbbbbbbbbbbbbbbbbbbbbbbbbbbbbbbbbbbbbb refs/heads/main'']"
proof -
  let ?ext = "demo_ext (Inr ''x'') (Inr (demo_config, [])) (Inr (demo_config_json, []))"
  let ?h = "\<lparr>installation = 7, repo = ''o/r''\<rparr>"
  let ?cs = "run_by demo_state (snd (PushHandler_githubPushHandler ?ext demo_Cfg ?h demo_push demo_state))"
  let ?ds = "notifier_calls (run_by demo_state (snd (githubPushHandler ?ext demo_Globals demo_push_old demo_state)))"
  have fields: "PushEvent.Before demo_push = Some ''aaaaaaaaaaaaaaaaaaaaaaaaaaaaaaaaaaaaaaaa''
      \<and> PushEvent.After demo_push = Some ''bbbbbbbbbbbbbbbbbbbbbbbbbbbbbbbbbbbbbbbb''
      \<and> PushEvent.Ref demo_push = Some ''refs/heads/main''"
    by (simp add: demo_push_def)
  have fields': "Before demo_push_old @ '' '' @ After demo_push_old @ '' '' @ Ref demo_push_old
      = ''aaaaaaaaaaaaaaaaaaaaaaaaaaaaaaaaaaaaaaaa bbbbbbbbbbbbbbbbbbbbbbbbbbbbbbbbbbbbbbbb refs/heads/main''"
    by (simp add: demo_push_old_def)
  have one: "length ?cs = 1"
    by (simp add: demo_push_new_run run_by_def) (simp add: demo_state_def)
  have one': "length ?ds = 1"
    by (simp add: demo_push_old_run)
  note claim = C5_notifier_stdin [of demo_push _ _ _ demo_state ?ext demo_Cfg ?h demo_Globals demo_push_old]
  have "\<forall>c \<in> set ?cs. Stdin c =
     ''aaaaaaaaaaaaaaaaaaaaaaaaaaaaaaaaaaaaaaaa'' @ '' '' @ ''bbbbbbbbbbbbbbbbbbbbbbbbbbbbbbbbbbbbbbbb''
       @ '' '' @ ''refs/heads/main''"
    using claim fields by blast
  with one have new: "map Stdin ?cs =
     [''aaaaaaaaaaaaaaaaaaaaaaaaaaaaaaaaaaaaaaaa bbbbbbbbbbbbbbbbbbbbbbbbbbbbbbbbbbbbbbbb refs/heads/main'']"
    by (cases ?cs) simp_all
  have "\<forall>c \<in> set ?ds. Stdin c =
      Before demo_push_old @ '' '' @ After demo_push_old @ '' '' @ Ref demo_push_old"
    using claim by blast
  with one' fields' have old: "map Stdin ?ds =
     [''aaaaaaaaaaaaaaaaaaaaaaaaaaaaaaaaaaaaaaaa bbbbbbbbbbbbbbbbbbbbbbbbbbbbbbbbbbbbbbbb refs/heads/main'']"
    by (cases ?ds) simp_all
  from new old show ?thesis by simp
qed

section \<open>Scanning a digest that was written in hexadecimal; the length of a digest\<close>

lemma of_char_hexdigit:
  "n < 16 \<Longrightarrow> (of_char (hexdigit n) :: nat) = (if n < 10 then 48 + n else 87 + n)"
  by (simp add: hexdigit_def)

lemma hexDigit_hexdigit: "n < 16 \<Longrightarrow> hexDigit (hexdigit n) = Some n"
  by (simp add: hexDigit_def Let_def of_char_hexdigit)

lemma hexString_encode: "hexString (hex_EncodeToString bs) = Inr bs"
proof (induction bs)
  case Nil
  show ?case by (simp add: hex_EncodeToString_def)
next
  case (Cons c cs)
  have hi: "hexDigit (hexdigit (of_char c div 16)) = Some (of_char c div 16)"
    by (rule hexDigit_hexdigit) (simp add: less_mult_imp_div_less)
  have lo: "hexDigit (hexdigit (of_char c mod 16)) = Some (of_char c mod 16)"
    by (rule hexDigit_hexdigit) simp
  have same: "char_of ((of_char c :: nat) div 16 * 16 + of_char c mod 16) = c"
    by simp
  have "hex_EncodeToString (c # cs) =
      hexdigit (of_char c div 16) # hexdigit (of_char c mod 16) # hex_EncodeToString cs"
    by (simp add: hex_EncodeToString_def)
  with Cons hi lo same show ?case by simp
qed

lemma hexDigit_range:
  "hexDigit c = Some v \<Longrightarrow> 48 \<le> (of_char c :: nat) \<and> (of_char c :: nat) \<le> 102"
  by (auto simp: hexDigit_def Let_def split: if_splits)

lemma SkipSpace_hexDigit:
  assumes "hexDigit c = Some v"
  shows "SkipSpace (c # cs) = Some (c # cs)"
proof -
  from hexDigit_range [OF assms] have r: "48 \<le> (of_char c :: nat)" "(of_char c :: nat) \<le> 102"
    by auto
  have ne: "c \<noteq> CHR 0x0A" "c \<noteq> CHR 0x09" "c \<noteq> CHR 0x0B" "c \<noteq> CHR 0x0C" "c \<noteq> CHR 0x0D"
    "c \<noteq> CHR 0x20" "c \<noteq> CHR 0xC2" "c \<noteq> CHR 0xE1" "c \<noteq> CHR 0xE2" "c \<noteq> CHR 0xE3"
    using r by auto
  then show ?thesis by simp
qed

lemma Sscanf_encode:
  assumes "bs \<noteq> []"
  shows "fmt_Sscanf_sha256_x (''sha256='' @ hex_EncodeToString bs) = Inr bs"
proof -
  from assms obtain c cs where bs: "bs = c # cs" by (cases bs) auto
  define hi where "hi = hexdigit (of_char c div 16)"
  define rest where "rest = hexdigit (of_char c mod 16) # hex_EncodeToString cs"
  have hi: "hexDigit hi = Some (of_char c div 16)"
    unfolding hi_def by (rule hexDigit_hexdigit) (simp add: less_mult_imp_div_less)
  have enc: "hex_EncodeToString bs = hi # rest"
    by (simp add: hex_EncodeToString_def bs hi_def rest_def)
  have skip: "SkipSpace (hi # rest) = Some (hi # rest)"
    by (rule SkipSpace_hexDigit [OF hi])
  have hx: "hexString (hi # rest) = Inr (c # cs)"
    using hexString_encode [of bs] unfolding enc by (simp add: bs)
  have t7: "take 7 (''sha256='' @ hi # rest) = ''sha256=''"
    and d7: "drop 7 (''sha256='' @ hi # rest) = hi # rest"
    by simp_all
  show ?thesis
    unfolding fmt_Sscanf_sha256_x_def enc t7 d7 skip
    by (simp add: bs hx del: hexString.simps)
qed

lemma sha256_block_length: "length hs = 8 \<Longrightarrow> length (sha256_block hs p) = 8"
  by (cases "(hs, p)" rule: sha256_block.cases) (auto split: prod.splits)

lemma sha256_blocks_length: "length hs = 8 \<Longrightarrow> length (sha256_blocks n hs p) = 8"
  by (induction n arbitrary: hs p) (simp_all add: sha256_block_length)

lemma length_concat_be_bytes: "length (concat (map (\<lambda>w. be_bytes 4 (f w)) ws)) = 4 * length ws"
  by (induction ws) (simp_all add: be_bytes_def)

lemma sha256_Sum256_length: "length (sha256_Sum256 p) = 32"
  by (simp add: sha256_Sum256_def Let_def length_concat_be_bytes sha256_blocks_length
        sha256_init_def)

lemma hmac_SHA256_length: "length (hmac_SHA256 key msg) = 32"
  by (simp add: hmac_SHA256_def Let_def sha256_Sum256_length)

lemma hmac_SHA256_nonempty: "hmac_SHA256 key msg \<noteq> []"
  using hmac_SHA256_length [of key msg] by auto

section \<open>The signature check\<close>

lemma verifySignature_iff:
  fixes ext :: "('w, 'c) ext"
  shows "(\<exists>payload. verifySignature ext g req = Inr payload) \<longleftrightarrow>
     Method req = ''POST'' \<and>
     Sscanf_sha256_x ext (Header_Get req ''X-Hub-Signature-256'') =
       Inr (hmac_sha256 ext (webhookSecret g) (take 1048576 (Body req)))"
  by (auto simp: verifySignature_def Let_def split: sum.splits)

lemma verifySignature_payload:
  fixes ext :: "('w, 'c) ext"
  shows "verifySignature ext g req = Inr payload \<Longrightarrow> payload = take 1048576 (Body req)"
  by (auto simp: verifySignature_def Let_def split: sum.splits if_splits)

lemma signed_request_scan:
  "Sscanf_sha256_x (demo_ext f t j)
     (Header_Get (signed_request secret eventType msg body) ''X-Hub-Signature-256'')
   = Inr (hmac_SHA256 secret msg)"
proof -
  have "Header_Get (signed_request secret eventType msg body) ''X-Hub-Signature-256''
      = ''sha256='' @ hex_EncodeToString (hmac_SHA256 secret msg)"
    by (simp add: signed_request_def Header_Get_def)
  then show ?thesis
    by (simp only: demo_ext_fields Sscanf_encode [OF hmac_SHA256_nonempty])
qed

lemma verifySignature_signed:
  "verifySignature (demo_ext f t j) g (signed_request secret eventType msg body) =
     (if hmac_SHA256 (webhookSecret g) (take 1048576 body) = hmac_SHA256 secret msg
      then Inr (take 1048576 body) else Inl ''signature verification failed'')"
  unfolding verifySignature_def signed_request_scan
  by (simp add: signed_request_def Let_def)


lemma verifySignature_rejects:
  fixes ext :: "('w, 'c) ext"
  assumes "verifySignature ext g req = Inl msg"
  shows "githubEventHandler ext g req NewResponse s =
           (Return (), \<lparr>wstatus = Some 400, wbody = msg @ [CHR 0x0A]\<rparr>, s)"
  using assms
  by (simp add: githubEventHandler_def http_Error_def NewResponse_def StatusBadRequest_def)

lemma ValidatePayload_rejects:
  fixes ext :: "('w, 'c) ext"
  assumes "ValidatePayload ext req (WebhookSecret Cfg) = Inl err"
  shows "Server_githubEventHandler ext Cfg req NewResponse s =
           (Return (),
            \<lparr>wstatus = Some 400,
             wbody = ''could not validate payload: '' @ Error err @ [CHR 0x0A]\<rparr>, s)"
  using assms
  by (simp add: Server_githubEventHandler_def http_Error_def NewResponse_def StatusBadRequest_def)

lemma verifySignature_other_body:
  fixes ext :: "('w, 'c) ext"
  assumes "verifySignature ext g req = Inr payload"
  shows "(\<exists>p. verifySignature ext g (req\<lparr>Body := B'\<rparr>) = Inr p) \<longleftrightarrow>
     hmac_sha256 ext (webhookSecret g) (take 1048576 B')
       = hmac_sha256 ext (webhookSecret g) (take 1048576 (Body req))"
  using assms
  by (auto simp: verifySignature_def Header_Get_def Let_def split: sum.splits if_splits)

lemma verifySignature_other_secret:
  fixes ext :: "('w, 'c) ext"
  assumes "verifySignature ext g req = Inr payload"
  shows "(\<exists>p. verifySignature ext (g\<lparr>webhookSecret := S'\<rparr>) req = Inr p) \<longleftrightarrow>
     hmac_sha256 ext S' (take 1048576 (Body req))
       = hmac_sha256 ext (webhookSecret g) (take 1048576 (Body req))"
  using assms
  by (auto simp: verifySignature_def Header_Get_def Let_def split: sum.splits if_splits)

lemma verifySignature_missing_header:
  fixes ext :: "('w, 'c) ext"
  assumes "Sscanf_sha256_x ext = fmt_Sscanf_sha256_x" and "Header req ''X-Hub-Signature-256'' = None"
  shows "\<exists>msg. verifySignature ext g req = Inl msg"
  using assms
  by (simp add: verifySignature_def Header_Get_def fmt_Sscanf_sha256_x_def)

lemma verifySignature_hex_header:
  fixes ext :: "('w, 'c) ext"
  assumes "Sscanf_sha256_x ext = fmt_Sscanf_sha256_x" and "d \<noteq> []" and "Method req = ''POST''"
    and "Header req ''X-Hub-Signature-256'' = Some (''sha256='' @ hex_EncodeToString d)"
  shows "(\<exists>payload. verifySignature ext g req = Inr payload) \<longleftrightarrow>
           d = hmac_sha256 ext (webhookSecret g) (take 1048576 (Body req))"
proof -
  have "Sscanf_sha256_x ext (Header_Get req ''X-Hub-Signature-256'') = Inr d"
    using assms(1,4) Sscanf_encode [OF assms(2)] by (simp only: Header_Get_def option.case)
  then show ?thesis
    using assms(3) by (auto simp: verifySignature_iff)
qed

text \<open>
  Claim C1, as the code has it. In the earlier snapshot the request passes the check
  exactly when its method is \<^verbatim>\<open>POST\<close> and the header \<^verbatim>\<open>X-Hub-Signature-256\<close> scans, as
  \<^verbatim>\<open>sha256=%x\<close>, to the HMAC-SHA256 under the webhook secret of the first 1048576 bytes of
  the body. A request that does not pass is answered with status 400 and a message, and
  nothing else happens: the state is the one the handler started in, so no event was
  parsed and no subprocess was run; the current snapshot answers in the same way when
  go-github's \<^verbatim>\<open>ValidatePayload\<close> returns an error. For a request that passes, the same
  request with another body, or checked under another secret, passes exactly when the
  HMAC of the first 1048576 bytes is the same: a change of a byte is rejected unless it
  leaves the HMAC as it was, and bytes after the first 1048576 are never read. With
  \<^verbatim>\<open>fmt.Sscanf\<close> as modelled, a missing header is rejected, and a header
  \<^verbatim>\<open>sha256=\<close> followed by the digits of a digest \<open>d\<close> passes exactly when \<open>d\<close> is that
  HMAC.
\<close>

theorem C1_signature_check:
  fixes ext :: "('w, 'c) ext"
  shows
  "((\<exists>payload. verifySignature ext g req = Inr payload) \<longleftrightarrow>
       Method req = ''POST'' \<and>
       Sscanf_sha256_x ext (Header_Get req ''X-Hub-Signature-256'') =
         Inr (hmac_sha256 ext (webhookSecret g) (take 1048576 (Body req))))
   \<and> (\<forall>msg. verifySignature ext g req = Inl msg \<longrightarrow>
         githubEventHandler ext g req NewResponse s =
           (Return (), \<lparr>wstatus = Some 400, wbody = msg @ [CHR 0x0A]\<rparr>, s))
   \<and> (\<forall>err. ValidatePayload ext req (WebhookSecret Cfg) = Inl err \<longrightarrow>
         Server_githubEventHandler ext Cfg req NewResponse s =
           (Return (),
            \<lparr>wstatus = Some 400,
             wbody = ''could not validate payload: '' @ Error err @ [CHR 0x0A]\<rparr>, s))
   \<and> ((\<exists>payload. verifySignature ext g req = Inr payload) \<longrightarrow>
        (\<forall>B'. (\<exists>p. verifySignature ext g (req\<lparr>Body := B'\<rparr>) = Inr p) \<longleftrightarrow>
               hmac_sha256 ext (webhookSecret g) (take 1048576 B')
                 = hmac_sha256 ext (webhookSecret g) (take 1048576 (Body req)))
      \<and> (\<forall>S'. (\<exists>p. verifySignature ext (g\<lparr>webhookSecret := S'\<rparr>) req = Inr p) \<longleftrightarrow>
               hmac_sha256 ext S' (take 1048576 (Body req))
                 = hmac_sha256 ext (webhookSecret g) (take 1048576 (Body req))))
   \<and> (Sscanf_sha256_x ext = fmt_Sscanf_sha256_x \<longrightarrow>
        (Header req ''X-Hub-Signature-256'' = None \<longrightarrow>
           (\<exists>msg. verifySignature ext g req = Inl msg))
      \<and> (\<forall>d. d \<noteq> [] \<and> Method req = ''POST'' \<and>
              Header req ''X-Hub-Signature-256'' = Some (''sha256='' @ hex_EncodeToString d) \<longrightarrow>
              ((\<exists>payload. verifySignature ext g req = Inr payload) \<longleftrightarrow>
                 d = hmac_sha256 ext (webhookSecret g) (take 1048576 (Body req)))))"
  using verifySignature_iff [of ext g req]
    verifySignature_rejects [of ext g req _ s]
    ValidatePayload_rejects [of ext req Cfg _ s]
    verifySignature_other_body [of ext g req]
    verifySignature_other_secret [of ext g req]
    verifySignature_missing_header [of ext req g]
    verifySignature_hex_header [of ext _ req g]
  by blast

text \<open>
  C1 on the concrete environment: a signed request passes; a request without the header,
  one whose header holds no hexadecimal digits and one whose digest has the wrong length
  are answered with 400 before anything else is done, in the current snapshot too.
\<close>

theorem C1_witness:
  "(\<exists>payload. verifySignature
        (demo_ext (Inl MissingConfigError) (Inl MissingConfigError) (Inl MissingConfigError))
        demo_Globals (signed_request ''s3cret'' ''ping'' ''{}'' ''{}'') = Inr payload)
   \<and> githubEventHandler
        (demo_ext (Inl MissingConfigError) (Inl MissingConfigError) (Inl MissingConfigError))
        demo_Globals \<lparr>Method = ''POST'', Header = Map.empty, Body = ''{}''\<rparr> NewResponse demo_state
      = (Return (),
         \<lparr>wstatus = Some 400, wbody = ''invalid signature: unexpected EOF'' @ [CHR 0x0A]\<rparr>,
         demo_state)
   \<and> githubEventHandler
        (demo_ext (Inl MissingConfigError) (Inl MissingConfigError) (Inl MissingConfigError))
        demo_Globals
        \<lparr>Method = ''POST'', Header = [''X-Hub-Signature-256'' \<mapsto> ''sha256=zz''], Body = ''{}''\<rparr>
        NewResponse demo_state
      = (Return (),
         \<lparr>wstatus = Some 400,
          wbody = ''invalid signature: no hex data for %x string'' @ [CHR 0x0A]\<rparr>,
         demo_state)
   \<and> githubEventHandler
        (demo_ext (Inl MissingConfigError) (Inl MissingConfigError) (Inl MissingConfigError))
        demo_Globals
        \<lparr>Method = ''POST'', Header = [''X-Hub-Signature-256'' \<mapsto> ''sha256=00''], Body = ''{}''\<rparr>
        NewResponse demo_state
      = (Return (),
         \<lparr>wstatus = Some 400, wbody = ''signature verification failed'' @ [CHR 0x0A]\<rparr>,
         demo_state)
   \<and> Server_githubEventHandler
        (demo_ext (Inl MissingConfigError) (Inl MissingConfigError) (Inl MissingConfigError))
        demo_Cfg \<lparr>Method = ''POST'', Header = Map.empty, Body = ''{}''\<rparr> NewResponse demo_state
      = (Return (),
         \<lparr>wstatus = Some 400,
          wbody = ''could not validate payload: payload signature check failed'' @ [CHR 0x0A]\<rparr>,
         demo_state)"
proof -
  let ?E = "demo_ext (Inl MissingConfigError) (Inl MissingConfigError) (Inl MissingConfigError)
              :: (string list, unit) ext"
  let ?ok = "signed_request ''s3cret'' ''ping'' ''{}'' ''{}''"
  let ?none = "\<lparr>Method = ''POST'', Header = Map.empty, Body = ''{}''\<rparr>"
  let ?zz = "\<lparr>Method = ''POST'', Header = [''X-Hub-Signature-256'' \<mapsto> ''sha256=zz''], Body = ''{}''\<rparr>"
  let ?short = "\<lparr>Method = ''POST'', Header = [''X-Hub-Signature-256'' \<mapsto> ''sha256=00''], Body = ''{}''\<rparr>"
  have scan: "Sscanf_sha256_x ?E = fmt_Sscanf_sha256_x" by simp
  have ok: "\<exists>payload. verifySignature ?E demo_Globals ?ok = Inr payload"
  proof -
    have "hmac_SHA256 ''s3cret'' ''{}'' \<noteq> []" by (rule hmac_SHA256_nonempty)
    moreover have "Method ?ok = ''POST''"
      and "Header ?ok ''X-Hub-Signature-256''
             = Some (''sha256='' @ hex_EncodeToString (hmac_SHA256 ''s3cret'' ''{}''))"
      and "hmac_SHA256 ''s3cret'' ''{}''
             = hmac_sha256 ?E (webhookSecret demo_Globals) (take 1048576 (Body ?ok))"
      by (simp_all add: signed_request_def demo_Globals_def)
    ultimately show ?thesis
      using C1_signature_check [where ext = ?E and g = demo_Globals and req = ?ok] scan
      by blast
  qed
  have none: "verifySignature ?E demo_Globals ?none = Inl ''invalid signature: unexpected EOF''"
    by (simp add: verifySignature_def Header_Get_def fmt_Sscanf_sha256_x_def)
  have zz: "verifySignature ?E demo_Globals ?zz = Inl ''invalid signature: no hex data for %x string''"
    by (simp add: verifySignature_def Header_Get_def fmt_Sscanf_sha256_x_def hexDigit_def)
  have "hmac_SHA256 (webhookSecret demo_Globals) ''{}'' \<noteq> [x]" for x
    using hmac_SHA256_length [of "webhookSecret demo_Globals" "''{}''"] by auto
  then have short: "verifySignature ?E demo_Globals ?short = Inl ''signature verification failed''"
    by (simp add: verifySignature_def Header_Get_def fmt_Sscanf_sha256_x_def hexDigit_def Let_def)
  have new: "ValidatePayload ?E ?none (WebhookSecret demo_Cfg)
               = Inl (ErrorString ''payload signature check failed'')"
    by simp
  from none C1_signature_check [where ext = ?E and g = demo_Globals and req = ?none and s = demo_state]
  have r1: "githubEventHandler ?E demo_Globals ?none NewResponse demo_state
      = (Return (), \<lparr>wstatus = Some 400, wbody = ''invalid signature: unexpected EOF'' @ [CHR 0x0A]\<rparr>,
         demo_state)"
    by blast
  from zz C1_signature_check [where ext = ?E and g = demo_Globals and req = ?zz and s = demo_state]
  have r2: "githubEventHandler ?E demo_Globals ?zz NewResponse demo_state
      = (Return (), \<lparr>wstatus = Some 400,
           wbody = ''invalid signature: no hex data for %x string'' @ [CHR 0x0A]\<rparr>, demo_state)"
    by blast
  from short C1_signature_check [where ext = ?E and g = demo_Globals and req = ?short and s = demo_state]
  have r3: "githubEventHandler ?E demo_Globals ?short NewResponse demo_state
      = (Return (), \<lparr>wstatus = Some 400, wbody = ''signature verification failed'' @ [CHR 0x0A]\<rparr>,
         demo_state)"
    by blast
  from new C1_signature_check [where ext = ?E and Cfg = demo_Cfg and req = ?none and s = demo_state]
  have r4: "Server_githubEventHandler ?E demo_Cfg ?none NewResponse demo_state
      = (Return (),
         \<lparr>wstatus = Some 400,
          wbody = ''could not validate payload: '' @ Error (ErrorString ''payload signature check failed'')
                    @ [CHR 0x0A]\<rparr>, demo_state)"
    by blast
  from ok r1 r2 r3 r4 show ?thesis by simp
qed

text \<open>
  Against C1 as stated (flipping any single byte of the body turns an accepted request
  into a rejected one): a body of 1048577 bytes whose signature header is the HMAC of its
  first 1048576 bytes is accepted, and it is still accepted after its last byte is
  changed.
\<close>

theorem C1_counterexample:
  "big_body[1048576 := CHR ''b''] \<noteq> big_body
   \<and> length (big_body[1048576 := CHR ''b'']) = length big_body
   \<and> verifySignature
        (demo_ext (Inl MissingConfigError) (Inl MissingConfigError) (Inl MissingConfigError))
        demo_Globals (signed_request ''s3cret'' ''ping'' (take 1048576 big_body) big_body)
      = Inr (take 1048576 big_body)
   \<and> verifySignature
        (demo_ext (Inl MissingConfigError) (Inl MissingConfigError) (Inl MissingConfigError))
        demo_Globals
        (signed_request ''s3cret'' ''ping'' (take 1048576 big_body) (big_body[1048576 := CHR ''b'']))
      = Inr (take 1048576 big_body)"
proof -
  have len: "length big_body = 1048577" by (simp add: big_body_def)
  have "big_body ! 1048576 = CHR ''a''" by (simp add: big_body_def)
  moreover have "big_body[1048576 := CHR ''b''] ! 1048576 = CHR ''b''"
    by (simp add: len)
  ultimately have ne: "big_body[1048576 := CHR ''b''] \<noteq> big_body" by auto
  have secret: "webhookSecret demo_Globals = ''s3cret''" by (simp add: demo_Globals_def)
  have same: "take 1048576 (big_body[1048576 := CHR ''b'']) = take 1048576 big_body"
    by simp
  show ?thesis
    using ne by (simp add: verifySignature_signed secret same)
qed

section \<open>Keys of a configuration file that match no field\<close>

text \<open>The \<^verbatim>\<open>getConfig\<close> of the earlier snapshot on a file that decodes.\<close>

lemma getConfig_json_unknown_field:
  fixes ext :: "('w, 'c) ext"
  assumes "runGitCmd ext gitRepo [''show'', ''HEAD:.github/commit-emails.json''] s = (Inr src, s')"
    and "json_Decode ext src = Inr (config, k # ks)"
  shows "getConfig_json ext gitRepo s =
           (Inl (ErrorString (''decoding commit-emails.json: json: unknown field ''
                                @ strconv_Quote ext k)), s')"
  using assms by (simp add: getConfig_json_def json_Decode_strict_def)

lemma getConfig_json_known_fields:
  fixes ext :: "('w, 'c) ext"
  assumes "runGitCmd ext gitRepo [''show'', ''HEAD:.github/commit-emails.json''] s = (Inr src, s')"
    and "json_Decode ext src = Inr (config, [])"
    and "valid_format (emailFormat config)"
  shows "getConfig_json ext gitRepo s = (Inr config, s')"
  using assms by (auto simp: getConfig_json_def json_Decode_strict_def valid_format_def)

lemma demo_show:
  "runGitCmd (demo_ext (Inr ''x'') t j) d [''show'', ''HEAD:.github/commit-emails.json''] s
     = (Inr ''x'', s\<lparr>spawned := spawned s @
          [(exec_Command ''git'' [''show'', ''HEAD:.github/commit-emails.json''])
             \<lparr>Env := [''PATH=/usr/bin'', ''GIT_DIR='' @ d]\<rparr>]\<rparr>)"
  by (simp add: runGitCmd_def Output_def demo_Output_def exec_Command_def Let_def)

text \<open>
  Claim C8, as the code has it. In \<^verbatim>\<open>config.go\<close>, for a file that decodes and whose
  format is valid, keys that the configuration has no field for do not make resolution
  fail: \<^verbatim>\<open>parseConfig\<close> returns the decoded configuration, and logs nothing when there
  are no such keys and exactly one warning, \<^verbatim>\<open>unknown config fields\<close>, listing them, when
  there are; \<^verbatim>\<open>getConfig\<close> returns the same configuration for a mirror that holds the
  file. The \<^verbatim>\<open>getConfig\<close> of the earlier snapshot (lines 482-499) decodes JSON after
  \<^verbatim>\<open>DisallowUnknownFields()\<close>: for a file that decodes and whose format is valid it
  returns the configuration when every key matches a field, and the error
  \<^verbatim>\<open>decoding commit-emails.json: json: unknown field "key"\<close>, with the first key that
  matches none, otherwise.
\<close>

theorem C8_unknown_fields:
  fixes ext :: "('w, 'c) ext"
  shows
  "(toml_Decode ext src = Inr (config, undecoded) \<and> valid_format (Email_Format config) \<longrightarrow>
      parseConfig ext src =
        (Inr config,
         if undecoded = [] then []
         else [Slog LevelWarn ''unknown config fields''
                 [(''fields'', strings_Join undecoded '', '')]])
      \<and> (\<forall>gitRepo w. GitShow ext gitRepo ''HEAD'' ''.github/commit-emails.toml'' w = Inr src
            \<longrightarrow> fst (getConfig ext gitRepo w) = Inr config))
   \<and> (runGitCmd ext gitRepo' [''show'', ''HEAD:.github/commit-emails.json''] s = (Inr src', s') \<and>
      json_Decode ext src' = Inr (config', unknown) \<and> valid_format (emailFormat config') \<longrightarrow>
      getConfig_json ext gitRepo' s =
        (case unknown of
           [] \<Rightarrow> (Inr config', s')
         | k # ks \<Rightarrow>
             (Inl (ErrorString (''decoding commit-emails.json: json: unknown field ''
                                  @ strconv_Quote ext k)), s')))"
proof (intro conjI impI)
  assume "toml_Decode ext src = Inr (config, undecoded) \<and> valid_format (Email_Format config)"
  then show "parseConfig ext src =
        (Inr config,
         if undecoded = [] then []
         else [Slog LevelWarn ''unknown config fields''
                 [(''fields'', strings_Join undecoded '', '')]])"
    and "\<forall>gitRepo w. GitShow ext gitRepo ''HEAD'' ''.github/commit-emails.toml'' w = Inr src
            \<longrightarrow> fst (getConfig ext gitRepo w) = Inr config"
    by (auto simp: parseConfig_def getConfig_def valid_format_def Let_def)
next
  assume h: "runGitCmd ext gitRepo' [''show'', ''HEAD:.github/commit-emails.json''] s = (Inr src', s') \<and>
      json_Decode ext src' = Inr (config', unknown) \<and> valid_format (emailFormat config')"
  show "getConfig_json ext gitRepo' s =
        (case unknown of
           [] \<Rightarrow> (Inr config', s')
         | k # ks \<Rightarrow>
             (Inl (ErrorString (''decoding commit-emails.json: json: unknown field ''
                                  @ strconv_Quote ext k)), s'))"
  proof (cases unknown)
    case Nil
    then show ?thesis using h getConfig_json_known_fields [of ext gitRepo' s src' s' config'] by simp
  next
    case (Cons k ks)
    then show ?thesis using h getConfig_json_unknown_field [of ext gitRepo' s src' s' config' k ks] by simp
  qed
qed

text \<open>
  C8 for a TOML file with the two unknown keys \<^verbatim>\<open>color\<close> and \<^verbatim>\<open>email.theme\<close> and a
  JSON file with the unknown key \<^verbatim>\<open>color\<close>.
\<close>

theorem C8_witness:
  "parseConfig (demo_ext (Inr ''x'') (Inr (demo_config, [''color'', ''email.theme''])) (Inr (demo_config_json, [''color'']))) ''x''
     = (Inr demo_config,
        [Slog LevelWarn ''unknown config fields'' [(''fields'', ''color, email.theme'')]])
   \<and> fst (getConfig (demo_ext (Inr ''x'') (Inr (demo_config, [''color'', ''email.theme''])) (Inr (demo_config_json, [''color''])))
             ''persist/repos/github.com/o/r'' [])
     = Inr demo_config
   \<and> fst (getConfig_json (demo_ext (Inr ''x'') (Inr (demo_config, [''color'', ''email.theme''])) (Inr (demo_config_json, [''color''])))
             ''persist/repos/github.com/o/r'' demo_state)
     = Inl (ErrorString (''decoding commit-emails.json: json: unknown field '' @ [CHR 0x22] @ ''color'' @ [CHR 0x22]))"
proof -
  let ?E = "demo_ext (Inr ''x'') (Inr (demo_config, [''color'', ''email.theme''])) (Inr (demo_config_json, [''color'']))
              :: (string list, unit) ext"
  let ?d = "''persist/repos/github.com/o/r''"
  have h: "toml_Decode ?E ''x'' = Inr (demo_config, [''color'', ''email.theme''])"
    "valid_format (Email_Format demo_config)"
    "runGitCmd ?E ?d [''show'', ''HEAD:.github/commit-emails.json''] demo_state
       = (Inr ''x'', demo_state\<lparr>spawned := spawned demo_state @
          [(exec_Command ''git'' [''show'', ''HEAD:.github/commit-emails.json''])
             \<lparr>Env := [''PATH=/usr/bin'', ''GIT_DIR='' @ ?d]\<rparr>]\<rparr>)"
    "json_Decode ?E ''x'' = Inr (demo_config_json, [''color''])"
    "valid_format (emailFormat demo_config_json)"
    "GitShow ?E ?d ''HEAD'' ''.github/commit-emails.toml'' [] = Inr ''x''"
    by (simp_all add: demo_show valid_format_def demo_config_def demo_config_json_def)
  from C8_unknown_fields [where ext = ?E and src = "''x''" and config = demo_config
      and undecoded = "[''color'', ''email.theme'']" and gitRepo' = ?d and s = demo_state
      and src' = "''x''" and config' = demo_config_json and unknown = "[''color'']"
      and s' = "demo_state\<lparr>spawned := spawned demo_state @
          [(exec_Command ''git'' [''show'', ''HEAD:.github/commit-emails.json''])
             \<lparr>Env := [''PATH=/usr/bin'', ''GIT_DIR='' @ ?d]\<rparr>]\<rparr>"]
    h
  show ?thesis by simp
qed

text \<open>
  The claim itself (unknown keys never make resolution fail) does not hold of the earlier
  \<^verbatim>\<open>getConfig\<close>: a JSON file whose recognized fields are valid and which holds the
  further key \<^verbatim>\<open>color\<close> is rejected.
\<close>

theorem C8_counterexample:
  "valid_format (emailFormat demo_config_json)
   \<and> json_Decode (demo_ext (Inr ''x'') (Inr (demo_config, [])) (Inr (demo_config_json, [''color''])))
        ''x'' = Inr (demo_config_json, [''color''])
   \<and> fst (getConfig_json (demo_ext (Inr ''x'') (Inr (demo_config, [])) (Inr (demo_config_json, [''color''])))
             ''persist/repos/github.com/o/r'' demo_state)
     = Inl (ErrorString (''decoding commit-emails.json: json: unknown field '' @ [CHR 0x22] @ ''color'' @ [CHR 0x22]))"
  by (simp add: getConfig_json_def json_Decode_strict_def demo_show valid_format_def demo_config_json_def)

section \<open>The success log entry of a push\<close>








section \<open>The mirror directory\<close>

text \<open>Splitting at slashes and joining with slashes are inverse to each other.\<close>

lemma split_slash_ne [simp]: "split_slash s \<noteq> []"
  by (induction s) (auto split: list.splits)

lemma split_slash_append:
  "split_slash (a @ CHR ''/'' # b) = split_slash a @ split_slash b"
  by (induction a) (auto split: list.splits)

lemma split_slash_no_slash: "e \<in> set (split_slash s) \<Longrightarrow> CHR ''/'' \<notin> set e"
  by (induction s arbitrary: e) (auto split: list.splits if_splits)

lemma split_slash_single: "CHR ''/'' \<notin> set e \<Longrightarrow> split_slash e = [e]"
  by (induction e) (auto split: list.splits)

lemma strings_Join_split_slash: "strings_Join (split_slash s) ''/'' = s"
proof (induction s)
  case Nil
  show ?case by simp
next
  case (Cons c cs)
  obtain x xs where sp: "split_slash cs = x # xs"
    by (cases "split_slash cs") simp_all
  show ?case
  proof (cases "c = CHR ''/''")
    case True
    then show ?thesis using Cons sp by simp
  next
    case False
    then show ?thesis using Cons sp by (cases xs) simp_all
  qed
qed

lemma strings_Join_snoc:
  "xs \<noteq> [] \<Longrightarrow> strings_Join (xs @ [n]) ''/'' = strings_Join xs ''/'' @ CHR ''/'' # n"
  by (induction xs "''/''" rule: strings_Join.induct) simp_all

lemma split_slash_strings_Join:
  "xs \<noteq> [] \<Longrightarrow> \<forall>e \<in> set xs. CHR ''/'' \<notin> set e \<Longrightarrow> split_slash (strings_Join xs ''/'') = xs"
proof (induction xs "''/''" rule: strings_Join.induct)
  case 1
  then show ?case by simp
next
  case (2 x)
  then show ?case by (simp add: split_slash_single)
next
  case (3 x y ys)
  have "split_slash (x @ CHR ''/'' # strings_Join (y # ys) ''/'')
          = split_slash x @ split_slash (strings_Join (y # ys) ''/'')"
    by (rule split_slash_append)
  then show ?case using 3 by (simp add: split_slash_single)
qed

lemma foldl_clean_step_names:
  "list_all (\<lambda>e. e \<noteq> '''' \<and> e \<noteq> ''.'' \<and> e \<noteq> ''..'') ys \<Longrightarrow>
     foldl (clean_step r) out ys = out @ ys"
  by (induction ys arbitrary: out) (simp_all add: clean_step_def)

lemma clean_step_no_slash:
  "\<forall>e \<in> set out. CHR ''/'' \<notin> set e \<Longrightarrow> CHR ''/'' \<notin> set x \<Longrightarrow>
     \<forall>e \<in> set (clean_step r out x). CHR ''/'' \<notin> set e"
  by (auto simp: clean_step_def dest: in_set_butlastD)

lemma foldl_clean_step_no_slash:
  "\<forall>e \<in> set out. CHR ''/'' \<notin> set e \<Longrightarrow> \<forall>e \<in> set xs. CHR ''/'' \<notin> set e \<Longrightarrow>
     \<forall>e \<in> set (foldl (clean_step r) out xs). CHR ''/'' \<notin> set e"
proof (induction xs arbitrary: out)
  case Nil
  then show ?case by simp
next
  case (Cons x xs)
  have "\<forall>e \<in> set (clean_step r out x). CHR ''/'' \<notin> set e"
    using Cons.prems by (intro clean_step_no_slash) simp_all
  then show ?case using Cons.IH [of "clean_step r out x"] Cons.prems by simp
qed

text \<open>Cleaning a path that ends in a clean name: the elements of the name are kept.\<close>

lemma filepath_Clean_under:
  assumes "clean_name n" and "pre \<noteq> []"
  shows "filepath_Clean (pre @ CHR ''/'' # n) =
           (if hd pre = CHR ''/'' then ''/'' else '''')
             @ strings_Join (foldl (clean_step (hd pre = CHR ''/'')) [] (split_slash pre) @ split_slash n) ''/''"
proof -
  let ?r = "hd pre = CHR ''/''"
  let ?out = "foldl (clean_step ?r) [] (split_slash pre)"
  have hd: "hd (pre @ CHR ''/'' # n) = hd pre" using assms(2) by simp
  have fold: "foldl (clean_step ?r) [] (split_slash (pre @ CHR ''/'' # n)) = ?out @ split_slash n"
    using assms(1) by (simp add: split_slash_append foldl_clean_step_names clean_name_def)
  show ?thesis
    unfolding filepath_Clean_def hd Let_def fold using assms(2) by simp
qed

lemma filepath_Clean_under_inj:
  assumes "clean_name n" and "clean_name n'" and "pre \<noteq> []"
    and "filepath_Clean (pre @ CHR ''/'' # n) = filepath_Clean (pre @ CHR ''/'' # n')"
  shows "n = n'"
proof -
  let ?r = "hd pre = CHR ''/''"
  let ?out = "foldl (clean_step ?r) [] (split_slash pre)"
  have ns: "\<forall>e \<in> set (?out @ split_slash m). CHR ''/'' \<notin> set e" for m
    using foldl_clean_step_no_slash [of "[]" "split_slash pre" ?r]
    by (auto dest: split_slash_no_slash)
  from assms(4) have "strings_Join (?out @ split_slash n) ''/'' = strings_Join (?out @ split_slash n') ''/''"
    unfolding filepath_Clean_under [OF assms(1,3)] filepath_Clean_under [OF assms(2,3)] by simp
  then have "split_slash (strings_Join (?out @ split_slash n) ''/'')
           = split_slash (strings_Join (?out @ split_slash n') ''/'')" by simp
  then have "?out @ split_slash n = ?out @ split_slash n'"
    using split_slash_strings_Join [OF _ ns [of n]] split_slash_strings_Join [OF _ ns [of n']]
    by simp
  then have "split_slash n = split_slash n'" by simp
  then have "strings_Join (split_slash n) ''/'' = strings_Join (split_slash n') ''/''" by simp
  then show ?thesis by (simp add: strings_Join_split_slash)
qed

lemma mirror_path_Clean:
  "filepath_Join [p, ''repos'', ''github.com'', n] =
     filepath_Clean ((if p = '''' then ''repos/github.com'' else p @ ''/repos/github.com'') @ CHR ''/'' # n)"
  by (simp add: filepath_Join_def)

text \<open>
  Claim C7, as the code has it. The mirror directory is
  \<^verbatim>\<open>filepath.Join(*persistPath, "repos", "github.com", FullName)\<close> (lines 584 and 635): a
  function of the persistence root and of the full name, the host being the constant
  \<^verbatim>\<open>github.com\<close>. Under one persistence root, two different full names none of whose
  elements is empty, \<^verbatim>\<open>.\<close> or \<^verbatim>\<open>..\<close> have different mirror directories.
\<close>

theorem C7_mirror_path:
  assumes "clean_name n" and "clean_name n'" and "n \<noteq> n'"
  shows "filepath_Join [p, ''repos'', ''github.com'', n] \<noteq> filepath_Join [p, ''repos'', ''github.com'', n']"
proof
  assume "filepath_Join [p, ''repos'', ''github.com'', n] = filepath_Join [p, ''repos'', ''github.com'', n']"
  then have "n = n'"
    unfolding mirror_path_Clean
    by (intro filepath_Clean_under_inj [OF assms(1,2)]) simp_all
  with assms(3) show False by simp
qed

text \<open>C7 for the repositories \<^verbatim>\<open>o/r\<close> and \<^verbatim>\<open>o/s\<close>.\<close>

theorem C7_witness:
  "clean_name ''o/r'' \<and> clean_name ''o/s''
   \<and> filepath_Join [''persist'', ''repos'', ''github.com'', ''o/r''] = ''persist/repos/github.com/o/r''
   \<and> filepath_Join [''persist'', ''repos'', ''github.com'', ''o/s''] = ''persist/repos/github.com/o/s''
   \<and> filepath_Join [''persist'', ''repos'', ''github.com'', ''o/r'']
       \<noteq> filepath_Join [''persist'', ''repos'', ''github.com'', ''o/s'']"
proof -
  have c: "clean_name ''o/r''" "clean_name ''o/s''" by (simp_all add: clean_name_def)
  from C7_mirror_path [OF c, of "''persist''"]
  show ?thesis
    by (simp add: c) (simp add: filepath_Join_def filepath_Clean_def clean_step_def Let_def)
qed

text \<open>
  The claim itself (no two full names share a path, also when they hold \<^verbatim>\<open>..\<close>
  elements) does not hold, since \<^verbatim>\<open>filepath.Join\<close> cleans the path: the names
  \<^verbatim>\<open>a/../b\<close> and \<^verbatim>\<open>b\<close> have the same mirror directory.
\<close>

theorem C7_counterexample:
  "''a/../b'' \<noteq> ''b''
   \<and> filepath_Join [''persist'', ''repos'', ''github.com'', ''a/../b''] = ''persist/repos/github.com/b''
   \<and> filepath_Join [''persist'', ''repos'', ''github.com'', ''b''] = ''persist/repos/github.com/b''"
  by (simp add: filepath_Join_def filepath_Clean_def clean_step_def Let_def)


section \<open>Ping, and syncing the mirror\<close>

text \<open>What the two webhook handlers do with a ping, and what \<^verbatim>\<open>syncRepo\<close> runs.\<close>

lemma Server_ping:
  fixes ext :: "('w, 'c) ext"
  assumes "ValidatePayload ext req (WebhookSecret Cfg) = Inr payload"
    and "ParseWebHook ext (Header_Get req ''X-GitHub-Event'') payload = Inr PingEvent"
  shows "Server_githubEventHandler ext Cfg req w s = (Return (), Write w ''Pong'', s)"
  using assms by (simp add: Server_githubEventHandler_def)

lemma handler_ping:
  fixes ext :: "('w, 'c) ext"
  assumes "verifySignature ext g req = Inr payload"
    and "Header_Get req ''X-GitHub-Event'' = ''ping''"
    and "json_Unmarshal_generic ext payload = Inr e"
    and "syncRepo ext
           (filepath_Join [persistPath g, ''repos'', ''github.com'', GithubRepo.FullName (Repository e)])
           (CloneUrl (Repository e))
           (log_append [Printf (GithubRepo.FullName (Repository e) @ '': ping from '' @ Login (Sender e))] s)
         = (r, s1)"
  shows "githubEventHandler ext g req w s =
           (case r of
              None \<Rightarrow> (Return (), Write w ''Pong'', s1)
            | Some err \<Rightarrow>
                (Return (),
                 http_Error w (''syncing repo '' @ strconv_Quote ext (CloneUrl (Repository e))
                                 @ '' failed: '' @ Error err) StatusBadRequest,
                 log_append [Printf (''syncing repo '' @ strconv_Quote ext (CloneUrl (Repository e))
                                 @ '' failed: '' @ Error err)] s1))"
  using assms
  by (simp add: githubEventHandler_def json_Unmarshal_def GetRepository_def GetSender_def Let_def
        split: option.splits)

lemma syncRepo_absent:
  fixes ext :: "('w, 'c) ext"
  assumes "os_Stat ext gitDir (world s) = StatNotExist"
    and "syncRepo ext gitDir url s = (r, s1)"
  shows "take 1 (run_by s s1) =
           [(exec_Command ''git'' [''clone'', ''--bare'', ''--quiet'', url, gitDir])
              \<lparr>Env := os_Environ ext @ [''GIT_DIR='' @ gitDir]\<rparr>]"
proof -
  obtain r0 s0 where c: "runGitCmd ext gitDir [''clone'', ''--bare'', ''--quiet'', url, gitDir] s = (r0, s0)"
    by (cases "runGitCmd ext gitDir [''clone'', ''--bare'', ''--quiet'', url, gitDir] s")
  note sp = runGitCmd_spawned [OF c]
  show ?thesis
  proof (cases r0)
    case (Inl err)
    then have "s1 = s0" using assms c by (simp add: syncRepo_def gitClone_def)
    then show ?thesis using sp by (simp add: run_by_def)
  next
    case (Inr out)
    then have f: "gitFetch ext gitDir (log_append [Printf (''Cloned '' @ url @ '' to '' @ gitDir)] s0) = (r, s1)"
      using assms c by (simp add: syncRepo_def gitClone_def)
    from gitFetch_spawned [OF f] obtain c' where "spawned s1 = spawned s0 @ [c']" by auto
    then show ?thesis using sp by (simp add: run_by_def)
  qed
qed

lemma demo_sync_logged:
  "syncRepo (demo_ext f t j) ''persist/repos/github.com/o/r'' ''https://github.com/o/r.git''
     (log_append rs demo_state)
   = (None, \<lparr>world = [''persist/repos/github.com/o/r''],
        spawned = [(exec_Command ''git'' [''clone'', ''--bare'', ''--quiet'', ''https://github.com/o/r.git'', ''persist/repos/github.com/o/r''])
                     \<lparr>Env := [''PATH=/usr/bin'', ''GIT_DIR=persist/repos/github.com/o/r'']\<rparr>,
                   (exec_Command ''git'' [''fetch'', ''--quiet'', ''--force'', ''origin'', ''*:*''])
                     \<lparr>Env := [''PATH=/usr/bin'', ''GIT_DIR=persist/repos/github.com/o/r'']\<rparr>],
        logged = rs @ [Printf ''Cloned https://github.com/o/r.git to persist/repos/github.com/o/r''],
        printed = []\<rparr>)"
  by (simp add: syncRepo_def gitClone_def gitFetch_def runGitCmd_def Output_def demo_ext_def
        demo_Output_def demo_state_def exec_Command_def log_append_def Let_def)

lemma syncRepo_clone:
  fixes ext :: "('w, 'c) ext"
  assumes "os_Stat ext gitDir (world s) = StatNotExist"
    and "cmd_Output ext
           ((exec_Command ''git'' [''clone'', ''--bare'', ''--quiet'', url, gitDir])
              \<lparr>Env := os_Environ ext @ [''GIT_DIR='' @ gitDir]\<rparr>) (world s) = (Inr out1, w1)"
    and "cmd_Output ext
           ((exec_Command ''git'' [''fetch'', ''--quiet'', ''--force'', ''origin'', ''*:*''])
              \<lparr>Env := os_Environ ext @ [''GIT_DIR='' @ gitDir]\<rparr>) w1 = (Inr out2, w2)"
  shows "syncRepo ext gitDir url s =
           (None,
            s\<lparr>world := w2,
              spawned := spawned s @
                [(exec_Command ''git'' [''clone'', ''--bare'', ''--quiet'', url, gitDir])
                   \<lparr>Env := os_Environ ext @ [''GIT_DIR='' @ gitDir]\<rparr>,
                 (exec_Command ''git'' [''fetch'', ''--quiet'', ''--force'', ''origin'', ''*:*''])
                   \<lparr>Env := os_Environ ext @ [''GIT_DIR='' @ gitDir]\<rparr>],
              logged := logged s @ [Printf (''Cloned '' @ url @ '' to '' @ gitDir)]\<rparr>)"
  using assms
  by (simp add: syncRepo_def gitClone_def gitFetch_def runGitCmd_def Output_def log_append_def Let_def)

lemma syncRepo_fetch:
  fixes ext :: "('w, 'c) ext"
  assumes "os_Stat ext gitDir (world s) = StatInfo True"
    and "cmd_Output ext
           ((exec_Command ''git'' [''fetch'', ''--quiet'', ''--force'', ''origin'', ''*:*''])
              \<lparr>Env := os_Environ ext @ [''GIT_DIR='' @ gitDir]\<rparr>) (world s) = (Inr out, w')"
  shows "syncRepo ext gitDir url s =
           (None,
            s\<lparr>world := w',
              spawned := spawned s @
                [(exec_Command ''git'' [''fetch'', ''--quiet'', ''--force'', ''origin'', ''*:*''])
                   \<lparr>Env := os_Environ ext @ [''GIT_DIR='' @ gitDir]\<rparr>]\<rparr>)"
  using assms
  by (simp add: syncRepo_def gitFetch_def runGitCmd_def Output_def Let_def)

text \<open>
  Claim C9, as the code has it. The handler of the current snapshot (lines 234-237)
  answers a ping that passed validation with 200 and the body \<^verbatim>\<open>Pong\<close> and does nothing
  else: the state is the one it started in, so no mirror is created. The handler of the
  earlier snapshot (lines 582-596) first syncs the mirror at
  \<^verbatim>\<open>filepath.Join(*persistPath, "repos", "github.com", FullName)\<close> from the clone URL of
  the event; it answers 200 \<^verbatim>\<open>Pong\<close> when the sync returned no error, and 400 with the
  message \<^verbatim>\<open>syncing repo "url" failed: ...\<close> when it returned one. When \<^verbatim>\<open>os.Stat\<close> finds
  no mirror directory, the first subprocess of the sync is
  \<^verbatim>\<open>git clone --bare --quiet url dir\<close>.
\<close>

theorem C9_ping_pong:
  fixes ext :: "('w, 'c) ext"
  shows
  "(ValidatePayload ext req (WebhookSecret Cfg) = Inr payload \<and>
    ParseWebHook ext (Header_Get req ''X-GitHub-Event'') payload = Inr PingEvent \<longrightarrow>
      Server_githubEventHandler ext Cfg req NewResponse s
        = (Return (), \<lparr>wstatus = Some 200, wbody = ''Pong''\<rparr>, s))
   \<and> (verifySignature ext g req' = Inr payload' \<and>
      Header_Get req' ''X-GitHub-Event'' = ''ping'' \<and>
      json_Unmarshal_generic ext payload' = Inr e \<and>
      syncRepo ext
        (filepath_Join [persistPath g, ''repos'', ''github.com'', GithubRepo.FullName (Repository e)])
        (CloneUrl (Repository e))
        (log_append [Printf (GithubRepo.FullName (Repository e) @ '': ping from '' @ Login (Sender e))] s)
        = (r, s1) \<longrightarrow>
      githubEventHandler ext g req' NewResponse s =
        (case r of
           None \<Rightarrow> (Return (), \<lparr>wstatus = Some 200, wbody = ''Pong''\<rparr>, s1)
         | Some err \<Rightarrow>
             (Return (),
              \<lparr>wstatus = Some 400,
               wbody = ''syncing repo '' @ strconv_Quote ext (CloneUrl (Repository e))
                         @ '' failed: '' @ Error err @ [CHR 0x0A]\<rparr>,
              log_append [Printf (''syncing repo '' @ strconv_Quote ext (CloneUrl (Repository e))
                                    @ '' failed: '' @ Error err)] s1))
      \<and> (os_Stat ext
            (filepath_Join [persistPath g, ''repos'', ''github.com'', GithubRepo.FullName (Repository e)])
            (world s) = StatNotExist \<longrightarrow>
          take 1 (run_by s s1) =
            [(exec_Command ''git'' [''clone'', ''--bare'', ''--quiet'', CloneUrl (Repository e),
                 filepath_Join [persistPath g, ''repos'', ''github.com'',
                                GithubRepo.FullName (Repository e)]])
               \<lparr>Env := os_Environ ext @
                  [''GIT_DIR='' @ filepath_Join [persistPath g, ''repos'', ''github.com'',
                                                GithubRepo.FullName (Repository e)]]\<rparr>]))"
proof (intro conjI impI)
  assume "ValidatePayload ext req (WebhookSecret Cfg) = Inr payload \<and>
    ParseWebHook ext (Header_Get req ''X-GitHub-Event'') payload = Inr PingEvent"
  then show "Server_githubEventHandler ext Cfg req NewResponse s
        = (Return (), \<lparr>wstatus = Some 200, wbody = ''Pong''\<rparr>, s)"
    using Server_ping [of ext req Cfg payload NewResponse s]
    by (simp add: Write_def NewResponse_def)
next
  let ?gitDir = "filepath_Join [persistPath g, ''repos'', ''github.com'', GithubRepo.FullName (Repository e)]"
  let ?s0 = "log_append [Printf (GithubRepo.FullName (Repository e) @ '': ping from '' @ Login (Sender e))] s"
  assume h: "verifySignature ext g req' = Inr payload' \<and>
      Header_Get req' ''X-GitHub-Event'' = ''ping'' \<and>
      json_Unmarshal_generic ext payload' = Inr e \<and>
      syncRepo ext ?gitDir (CloneUrl (Repository e)) ?s0 = (r, s1)"
  then have "githubEventHandler ext g req' NewResponse s =
           (case r of
              None \<Rightarrow> (Return (), Write NewResponse ''Pong'', s1)
            | Some err \<Rightarrow>
                (Return (),
                 http_Error NewResponse (''syncing repo '' @ strconv_Quote ext (CloneUrl (Repository e))
                                 @ '' failed: '' @ Error err) StatusBadRequest,
                 log_append [Printf (''syncing repo '' @ strconv_Quote ext (CloneUrl (Repository e))
                                 @ '' failed: '' @ Error err)] s1))"
    using handler_ping [of ext g req' payload' e s r s1 NewResponse] by blast
  then show "githubEventHandler ext g req' NewResponse s =
        (case r of
           None \<Rightarrow> (Return (), \<lparr>wstatus = Some 200, wbody = ''Pong''\<rparr>, s1)
         | Some err \<Rightarrow>
             (Return (),
              \<lparr>wstatus = Some 400,
               wbody = ''syncing repo '' @ strconv_Quote ext (CloneUrl (Repository e))
                         @ '' failed: '' @ Error err @ [CHR 0x0A]\<rparr>,
              log_append [Printf (''syncing repo '' @ strconv_Quote ext (CloneUrl (Repository e))
                                    @ '' failed: '' @ Error err)] s1))"
    by (simp add: Write_def http_Error_def NewResponse_def StatusBadRequest_def split: option.splits)
  assume "os_Stat ext ?gitDir (world s) = StatNotExist"
  then have "os_Stat ext ?gitDir (world ?s0) = StatNotExist" by simp
  from syncRepo_absent [OF this] h
  show "take 1 (run_by s s1) =
            [(exec_Command ''git'' [''clone'', ''--bare'', ''--quiet'', CloneUrl (Repository e), ?gitDir])
               \<lparr>Env := os_Environ ext @ [''GIT_DIR='' @ ?gitDir]\<rparr>]"
    by (simp add: run_by_def)
qed

text \<open>
  C9 on the concrete environment: the current handler answers \<^verbatim>\<open>Pong\<close> and leaves the
  state as it is; the earlier one clones the mirror, fetches, and answers \<^verbatim>\<open>Pong\<close>.
\<close>

theorem C9_witness:
  "Server_githubEventHandler
     (demo_ext (Inr ''x'') (Inr (demo_config, [])) (Inr (demo_config_json, [])))
     demo_Cfg (demo_request ''ping'' ''{}'') NewResponse demo_state
   = (Return (), \<lparr>wstatus = Some 200, wbody = ''Pong''\<rparr>, demo_state)
   \<and> githubEventHandler
       (demo_ext (Inr ''x'') (Inr (demo_config, [])) (Inr (demo_config_json, [])))
       demo_Globals (signed_request ''s3cret'' ''ping'' ''{}'' ''{}'') NewResponse demo_state
     = (Return (), \<lparr>wstatus = Some 200, wbody = ''Pong''\<rparr>,
        \<lparr>world = [''persist/repos/github.com/o/r''],
         spawned = [(exec_Command ''git'' [''clone'', ''--bare'', ''--quiet'', ''https://github.com/o/r.git'', ''persist/repos/github.com/o/r''])
                     \<lparr>Env := [''PATH=/usr/bin'', ''GIT_DIR=persist/repos/github.com/o/r'']\<rparr>,
                   (exec_Command ''git'' [''fetch'', ''--quiet'', ''--force'', ''origin'', ''*:*''])
                     \<lparr>Env := [''PATH=/usr/bin'', ''GIT_DIR=persist/repos/github.com/o/r'']\<rparr>],
         logged = [Printf ''o/r: ping from ada'',
                   Printf ''Cloned https://github.com/o/r.git to persist/repos/github.com/o/r''],
         printed = []\<rparr>)"
proof -
  let ?E = "demo_ext (Inr ''x'') (Inr (demo_config, [])) (Inr (demo_config_json, []))
              :: (string list, unit) ext"
  let ?s1 = "\<lparr>world = [''persist/repos/github.com/o/r''],
         spawned = [(exec_Command ''git'' [''clone'', ''--bare'', ''--quiet'', ''https://github.com/o/r.git'', ''persist/repos/github.com/o/r''])
                     \<lparr>Env := [''PATH=/usr/bin'', ''GIT_DIR=persist/repos/github.com/o/r'']\<rparr>,
                   (exec_Command ''git'' [''fetch'', ''--quiet'', ''--force'', ''origin'', ''*:*''])
                     \<lparr>Env := [''PATH=/usr/bin'', ''GIT_DIR=persist/repos/github.com/o/r'']\<rparr>],
         logged = [Printf ''o/r: ping from ada'',
                   Printf ''Cloned https://github.com/o/r.git to persist/repos/github.com/o/r''],
         printed = []\<rparr> :: string list state"
  have new: "ValidatePayload ?E (demo_request ''ping'' ''{}'') (WebhookSecret demo_Cfg) = Inr ''{}''"
    "ParseWebHook ?E (Header_Get (demo_request ''ping'' ''{}'') ''X-GitHub-Event'') ''{}'' = Inr PingEvent"
    by (simp_all add: demo_request_def demo_Cfg_def Header_Get_def)
  have sec: "webhookSecret demo_Globals = ''s3cret''" by (simp add: demo_Globals_def)
  have gen: "GithubRepo.FullName (Repository demo_generic) = ''o/r''"
    "CloneUrl (Repository demo_generic) = ''https://github.com/o/r.git''"
    "Login (Sender demo_generic) = ''ada''"
    "persistPath demo_Globals = ''persist''"
    by (simp_all add: demo_generic_def demo_Globals_def)
  have old: "verifySignature ?E demo_Globals (signed_request ''s3cret'' ''ping'' ''{}'' ''{}'') = Inr ''{}''"
    "Header_Get (signed_request ''s3cret'' ''ping'' ''{}'' ''{}'') ''X-GitHub-Event'' = ''ping''"
    "json_Unmarshal_generic ?E ''{}'' = Inr demo_generic"
    by (simp_all add: verifySignature_signed sec) (simp_all add: signed_request_def Header_Get_def)
  have sync: "syncRepo ?E
        (filepath_Join [persistPath demo_Globals, ''repos'', ''github.com'',
                        GithubRepo.FullName (Repository demo_generic)])
        (CloneUrl (Repository demo_generic))
        (log_append [Printf (GithubRepo.FullName (Repository demo_generic) @ '': ping from ''
                               @ Login (Sender demo_generic))] demo_state)
        = (None, ?s1)"
    unfolding gen demo_gitDir using demo_sync_logged [of "Inr ''x''" _ _ "[Printf ''o/r: ping from ada'']"]
    by simp
  from C9_ping_pong [where ext = ?E and req = "demo_request ''ping'' ''{}''" and Cfg = demo_Cfg
      and payload = "''{}''" and s = demo_state and g = demo_Globals
      and req' = "signed_request ''s3cret'' ''ping'' ''{}'' ''{}''" and payload' = "''{}''"
      and e = demo_generic and r = None and ?s1.0 = ?s1]
  have "Server_githubEventHandler ?E demo_Cfg (demo_request ''ping'' ''{}'') NewResponse demo_state
          = (Return (), \<lparr>wstatus = Some 200, wbody = ''Pong''\<rparr>, demo_state)
      \<and> githubEventHandler ?E demo_Globals (signed_request ''s3cret'' ''ping'' ''{}'' ''{}'')
          NewResponse demo_state
          = (Return (), \<lparr>wstatus = Some 200, wbody = ''Pong''\<rparr>, ?s1)"
    unfolding new old sync by simp
  then show ?thesis by simp
qed

text \<open>
  The claim itself (the mirror is created if it was absent) does not hold of the current
  handler: after a validly signed ping for the repository \<^verbatim>\<open>o/r\<close>, answered with 200
  \<^verbatim>\<open>Pong\<close>, the state is the initial one, in which the mirror directory does not exist
  and no subprocess has run.
\<close>

theorem C9_counterexample:
  "Server_githubEventHandler
     (demo_ext (Inr ''x'') (Inr (demo_config, [])) (Inr (demo_config_json, [])))
     demo_Cfg (demo_request ''ping'' ''{}'') NewResponse demo_state
   = (Return (), \<lparr>wstatus = Some 200, wbody = ''Pong''\<rparr>, demo_state)
   \<and> os_Stat (demo_ext (Inr ''x'') (Inr (demo_config, [])) (Inr (demo_config_json, [])))
       ''persist/repos/github.com/o/r'' (world demo_state) = StatNotExist
   \<and> spawned demo_state = []"
  by (simp add: Server_githubEventHandler_def demo_request_def demo_Cfg_def Header_Get_def
        Write_def NewResponse_def)
     (simp add: demo_state_def)

text \<open>
  Claim C6. Let the mirror directory be absent, let \<^verbatim>\<open>git clone\<close> succeed, let the
  \<^verbatim>\<open>git fetch\<close> after it succeed and leave the world \<open>w2\<close>, in which the directory exists,
  and let there be no upstream change: a further \<^verbatim>\<open>git fetch\<close> in \<open>w2\<close> succeeds and
  leaves \<open>w2\<close>. Then two consecutive calls of \<^verbatim>\<open>syncRepo\<close> (lines 612-632) both return
  \<^verbatim>\<open>nil\<close>, and the world after the second is the world after the first. The first call
  runs the clone and a fetch, the second the forced fetch only.
\<close>

theorem C6_sync_twice:
  fixes ext :: "('w, 'c) ext"
  assumes "os_Stat ext gitDir (world s) = StatNotExist"
    and "cmd_Output ext
           ((exec_Command ''git'' [''clone'', ''--bare'', ''--quiet'', url, gitDir])
              \<lparr>Env := os_Environ ext @ [''GIT_DIR='' @ gitDir]\<rparr>) (world s) = (Inr out1, w1)"
    and "cmd_Output ext
           ((exec_Command ''git'' [''fetch'', ''--quiet'', ''--force'', ''origin'', ''*:*''])
              \<lparr>Env := os_Environ ext @ [''GIT_DIR='' @ gitDir]\<rparr>) w1 = (Inr out2, w2)"
    and "os_Stat ext gitDir w2 = StatInfo True"
    and "cmd_Output ext
           ((exec_Command ''git'' [''fetch'', ''--quiet'', ''--force'', ''origin'', ''*:*''])
              \<lparr>Env := os_Environ ext @ [''GIT_DIR='' @ gitDir]\<rparr>) w2 = (Inr out3, w2)"
  shows "fst (syncRepo ext gitDir url s) = None
       \<and> fst (syncRepo ext gitDir url (snd (syncRepo ext gitDir url s))) = None
       \<and> world (snd (syncRepo ext gitDir url s)) = w2
       \<and> world (snd (syncRepo ext gitDir url (snd (syncRepo ext gitDir url s)))) = w2
       \<and> run_by s (snd (syncRepo ext gitDir url s)) =
           [(exec_Command ''git'' [''clone'', ''--bare'', ''--quiet'', url, gitDir])
              \<lparr>Env := os_Environ ext @ [''GIT_DIR='' @ gitDir]\<rparr>,
            (exec_Command ''git'' [''fetch'', ''--quiet'', ''--force'', ''origin'', ''*:*''])
              \<lparr>Env := os_Environ ext @ [''GIT_DIR='' @ gitDir]\<rparr>]
       \<and> run_by (snd (syncRepo ext gitDir url s))
                 (snd (syncRepo ext gitDir url (snd (syncRepo ext gitDir url s)))) =
           [(exec_Command ''git'' [''fetch'', ''--quiet'', ''--force'', ''origin'', ''*:*''])
              \<lparr>Env := os_Environ ext @ [''GIT_DIR='' @ gitDir]\<rparr>]"
proof -
  let ?s1 = "snd (syncRepo ext gitDir url s)"
  note first = syncRepo_clone [OF assms(1-3)]
  have w: "world ?s1 = w2" by (simp add: first)
  have second: "syncRepo ext gitDir url ?s1 =
           (None,
            ?s1\<lparr>world := w2,
              spawned := spawned ?s1 @
                [(exec_Command ''git'' [''fetch'', ''--quiet'', ''--force'', ''origin'', ''*:*''])
                   \<lparr>Env := os_Environ ext @ [''GIT_DIR='' @ gitDir]\<rparr>]\<rparr>)"
    by (rule syncRepo_fetch [where out = out3]) (simp_all only: w assms(4,5))
  show ?thesis
    unfolding second unfolding first by (simp add: run_by_def)
qed

text \<open>C6 on the concrete environment, where a fetch changes nothing.\<close>

theorem C6_witness:
  "fst (syncRepo (demo_ext (Inr ''x'') (Inr (demo_config, [])) (Inr (demo_config_json, [])))
          ''persist/repos/github.com/o/r'' ''https://github.com/o/r.git'' demo_state) = None
   \<and> fst (syncRepo (demo_ext (Inr ''x'') (Inr (demo_config, [])) (Inr (demo_config_json, [])))
          ''persist/repos/github.com/o/r'' ''https://github.com/o/r.git''
          (snd (syncRepo (demo_ext (Inr ''x'') (Inr (demo_config, [])) (Inr (demo_config_json, [])))
                  ''persist/repos/github.com/o/r'' ''https://github.com/o/r.git'' demo_state))) = None
   \<and> world (snd (syncRepo (demo_ext (Inr ''x'') (Inr (demo_config, [])) (Inr (demo_config_json, [])))
          ''persist/repos/github.com/o/r'' ''https://github.com/o/r.git'' demo_state))
       = [''persist/repos/github.com/o/r'']
   \<and> world (snd (syncRepo (demo_ext (Inr ''x'') (Inr (demo_config, [])) (Inr (demo_config_json, [])))
          ''persist/repos/github.com/o/r'' ''https://github.com/o/r.git''
          (snd (syncRepo (demo_ext (Inr ''x'') (Inr (demo_config, [])) (Inr (demo_config_json, [])))
                  ''persist/repos/github.com/o/r'' ''https://github.com/o/r.git'' demo_state))))
       = [''persist/repos/github.com/o/r'']"
proof -
  let ?E = "demo_ext (Inr ''x'') (Inr (demo_config, [])) (Inr (demo_config_json, []))
              :: (string list, unit) ext"
  let ?d = "''persist/repos/github.com/o/r''"
  let ?u = "''https://github.com/o/r.git''"
  have h: "os_Stat ?E ?d (world demo_state) = StatNotExist"
    "cmd_Output ?E ((exec_Command ''git'' [''clone'', ''--bare'', ''--quiet'', ?u, ?d])
              \<lparr>Env := os_Environ ?E @ [''GIT_DIR='' @ ?d]\<rparr>) (world demo_state) = (Inr '''', [?d])"
    "cmd_Output ?E ((exec_Command ''git'' [''fetch'', ''--quiet'', ''--force'', ''origin'', ''*:*''])
              \<lparr>Env := os_Environ ?E @ [''GIT_DIR='' @ ?d]\<rparr>) [?d] = (Inr '''', [?d])"
    "os_Stat ?E ?d [?d] = StatInfo True"
    "cmd_Output ?E ((exec_Command ''git'' [''fetch'', ''--quiet'', ''--force'', ''origin'', ''*:*''])
              \<lparr>Env := os_Environ ?E @ [''GIT_DIR='' @ ?d]\<rparr>) [?d] = (Inr '''', [?d])"
    by (simp_all add: demo_state_def demo_Output_def exec_Command_def)
  from C6_sync_twice [OF h] show ?thesis by simp
qed

section \<open>A push to a repository without a configuration file\<close>

text \<open>
  The two places where the current push handler can learn that there is no
  configuration file, and the one place where the earlier one can.
\<close>

lemma run_by_log_append_left [simp]: "run_by (log_append rs s) s' = run_by s s'"
  by (simp add: run_by_def)










end
